theory Spec2Isabelle
  imports Main "HOL-Library.AList"
begin

section \<open>JSON values and the Python operations the facades apply to them\<close>

text \<open>
  The transport hands every facade the parsed JSON body of the response. A parsed body is
  a Python value built from \<open>None\<close>, booleans, integers, strings, lists and dicts; a dict
  is kept as its list of items in insertion order (keys distinct, as in Python).
  Non-integer numbers are left out: no facade computes with a number.
\<close>

datatype json =
    JNull
  | JBool bool
  | JInt int
  | JString string
  | JArray "json list"
  | JObject "(string \<times> json) list"

type_synonym dict = "(string \<times> json) list"

text \<open>
  The exceptions a facade can end with. \<open>SendlyError message code status_code\<close> is the
  SDK's own error; \<open>PydanticValidationError\<close> carries the text of the parse failure;
  \<open>TransportError\<close> stands for whatever the transport raised.
\<close>

datatype error =
    KeyError string
  | TypeError
  | AttributeError
  | PydanticValidationError string
  | SendlyError string string int
  | TransportError string int

definition err_bind :: "error + 'a \<Rightarrow> ('a \<Rightarrow> error + 'b) \<Rightarrow> error + 'b" where
  "err_bind m f = (case m of Inl e \<Rightarrow> Inl e | Inr x \<Rightarrow> f x)"

text \<open>\<open>[f(x) for x in xs]\<close>: the first \<open>f(x)\<close> that raises ends the comprehension.\<close>

fun comprehension :: "('a \<Rightarrow> error + 'b) \<Rightarrow> 'a list \<Rightarrow> error + 'b list" where
  "comprehension f [] = Inr []"
| "comprehension f (x # xs) =
     err_bind (f x) (\<lambda>y. err_bind (comprehension f xs) (\<lambda>ys. Inr (y # ys)))"

text \<open>Truth value testing: \<open>if v:\<close>.\<close>

fun py_truthy :: "json \<Rightarrow> bool" where
  "py_truthy JNull = False"
| "py_truthy (JBool b) = b"
| "py_truthy (JInt n) = (n \<noteq> 0)"
| "py_truthy (JString s) = (s \<noteq> [])"
| "py_truthy (JArray xs) = (xs \<noteq> [])"
| "py_truthy (JObject kvs) = (kvs \<noteq> [])"

text \<open>\<open>data[key]\<close> with a string key: KeyError on a dict without the key, TypeError on
  anything that is not a dict.\<close>

fun py_getitem :: "json \<Rightarrow> string \<Rightarrow> error + json" where
  "py_getitem (JObject kvs) k =
     (case map_of kvs k of None \<Rightarrow> Inl (KeyError k) | Some v \<Rightarrow> Inr v)"
| "py_getitem JNull k = Inl TypeError"
| "py_getitem (JBool b) k = Inl TypeError"
| "py_getitem (JInt n) k = Inl TypeError"
| "py_getitem (JString s) k = Inl TypeError"
| "py_getitem (JArray xs) k = Inl TypeError"

text \<open>\<open>data.get(key, default)\<close> and \<open>data.get(key)\<close>: only a dict has the method.\<close>

fun py_get_default :: "json \<Rightarrow> string \<Rightarrow> json \<Rightarrow> error + json" where
  "py_get_default (JObject kvs) k d =
     Inr (case map_of kvs k of None \<Rightarrow> d | Some v \<Rightarrow> v)"
| "py_get_default JNull k d = Inl AttributeError"
| "py_get_default (JBool b) k d = Inl AttributeError"
| "py_get_default (JInt n) k d = Inl AttributeError"
| "py_get_default (JString s) k d = Inl AttributeError"
| "py_get_default (JArray xs) k d = Inl AttributeError"

definition py_get :: "json \<Rightarrow> string \<Rightarrow> error + json" where
  "py_get data k = py_get_default data k JNull"

text \<open>\<open>key in data\<close>: key membership on a dict, element membership on a list, substring
  test on a string, TypeError on a value that is not iterable.\<close>

definition is_substring :: "string \<Rightarrow> string \<Rightarrow> bool" where
  "is_substring k s = list_ex (\<lambda>i. take (length k) (drop i s) = k) [0..<Suc (length s)]"

fun py_contains :: "string \<Rightarrow> json \<Rightarrow> error + bool" where
  "py_contains k (JObject kvs) = Inr (map_of kvs k \<noteq> None)"
| "py_contains k (JArray xs) = Inr (JString k \<in> set xs)"
| "py_contains k (JString s) = Inr (is_substring k s)"
| "py_contains k JNull = Inl TypeError"
| "py_contains k (JBool b) = Inl TypeError"
| "py_contains k (JInt n) = Inl TypeError"

text \<open>\<open>for x in data\<close>: a list yields its elements, a dict its keys, a string its
  characters; anything else is not iterable.\<close>

fun py_iter :: "json \<Rightarrow> error + json list" where
  "py_iter (JArray xs) = Inr xs"
| "py_iter (JObject kvs) = Inr (map (\<lambda>kv. JString (fst kv)) kvs)"
| "py_iter (JString s) = Inr (map (\<lambda>c. JString [c]) s)"
| "py_iter JNull = Inl TypeError"
| "py_iter (JBool b) = Inl TypeError"
| "py_iter (JInt n) = Inl TypeError"

text \<open>The caller's arguments as Python values: \<open>None\<close> is the default of every optional
  parameter.\<close>

definition of_str :: "string option \<Rightarrow> json" where
  "of_str x = (case x of None \<Rightarrow> JNull | Some s \<Rightarrow> JString s)"

definition of_int_opt :: "int option \<Rightarrow> json" where
  "of_int_opt x = (case x of None \<Rightarrow> JNull | Some n \<Rightarrow> JInt n)"

definition of_strs :: "string list \<Rightarrow> json" where
  "of_strs xs = JArray (map JString xs)"

definition of_strs_opt :: "string list option \<Rightarrow> json" where
  "of_strs_opt x = (case x of None \<Rightarrow> JNull | Some xs \<Rightarrow> of_strs xs)"

definition of_dict_opt :: "dict option \<Rightarrow> json" where
  "of_dict_opt x = (case x of None \<Rightarrow> JNull | Some d \<Rightarrow> JObject d)"

text \<open>The two idioms that fill a request mapping:
  \<open>if v: d[k] = v\<close> and \<open>if v is not None: d[k] = v\<close>.
  \<open>AList.update\<close> is dict assignment: it replaces the value of a key already there and
  appends a new key at the end.\<close>

definition set_if_truthy :: "string \<Rightarrow> json \<Rightarrow> dict \<Rightarrow> dict" where
  "set_if_truthy k v d = (if py_truthy v then AList.update k v d else d)"

definition set_if_not_none :: "string \<Rightarrow> json \<Rightarrow> dict \<Rightarrow> dict" where
  "set_if_not_none k v d = (if v \<noteq> JNull then AList.update k v d else d)"

section \<open>Request descriptors and the transport\<close>

text \<open>What a facade passes to \<open>HttpClient.request(method, path, json=None, params=None)\<close>.
  The transport itself (\<open>sendly.utils.http\<close>) is not part of the sources; a facade method
  takes it as a parameter.\<close>

record request =
  req_method :: string
  req_path :: string
  req_json :: "dict option"
  req_params :: "dict option"

type_synonym transport = "request \<Rightarrow> error + json"

text \<open>\<open>params if params else None\<close>\<close>

definition or_none :: "dict \<Rightarrow> dict option" where
  "or_none d = (if d \<noteq> [] then Some d else None)"

definition request_keys :: "request \<Rightarrow> string set" where
  "request_keys r =
     (case req_json r of None \<Rightarrow> {} | Some d \<Rightarrow> fst ` set d) \<union>
     (case req_params r of None \<Rightarrow> {} | Some d \<Rightarrow> fst ` set d)"

section \<open>Typed response objects\<close>

text \<open>
  Modelled from the spec: the value objects of \<open>sendly.types\<close> (Campaign, Contact,
  Verification and the others) are not part of the sources. Following the data model of
  the specification (fields map 1:1 to the response fields), each is the record of the
  keyword arguments its constructor is called with, held as the Python values passed.
\<close>

record campaign =
  Campaign_id :: json
  Campaign_name :: json
  Campaign_text :: json
  Campaign_template_id :: json
  Campaign_contact_list_ids :: json
  Campaign_status :: json
  Campaign_recipient_count :: json
  Campaign_sent_count :: json
  Campaign_delivered_count :: json
  Campaign_failed_count :: json
  Campaign_estimated_credits :: json
  Campaign_credits_used :: json
  Campaign_scheduled_at :: json
  Campaign_timezone :: json
  Campaign_started_at :: json
  Campaign_completed_at :: json
  Campaign_created_at :: json
  Campaign_updated_at :: json

record campaign_list_response =
  CampaignListResponse_campaigns :: "campaign list"
  CampaignListResponse_total :: json
  CampaignListResponse_limit :: json
  CampaignListResponse_offset :: json

record campaign_preview =
  CampaignPreview_id :: json
  CampaignPreview_recipient_count :: json
  CampaignPreview_estimated_segments :: json
  CampaignPreview_estimated_credits :: json
  CampaignPreview_current_balance :: json
  CampaignPreview_has_enough_credits :: json
  CampaignPreview_breakdown :: json

record contact =
  Contact_id :: json
  Contact_phone_number :: json
  Contact_name :: json
  Contact_email :: json
  Contact_metadata :: json
  Contact_opted_out :: json
  Contact_created_at :: json
  Contact_updated_at :: json
  Contact_lists :: json

record contact_list =
  ContactList_id :: json
  ContactList_name :: json
  ContactList_description :: json
  ContactList_contact_count :: json
  ContactList_created_at :: json
  ContactList_updated_at :: json
  ContactList_contacts :: json
  ContactList_contacts_total :: json

record contact_list_response =
  ContactListResponse_contacts :: "contact list"
  ContactListResponse_total :: json
  ContactListResponse_limit :: json
  ContactListResponse_offset :: json

record contact_lists_response =
  ContactListsResponse_lists :: "contact_list list"

record import_contacts_response =
  ImportContactsResponse_imported :: json
  ImportContactsResponse_skipped_duplicates :: json
  ImportContactsResponse_errors :: json
  ImportContactsResponse_total_errors :: json

record send_verification_response =
  SendVerificationResponse_id :: json
  SendVerificationResponse_status :: json
  SendVerificationResponse_phone :: json
  SendVerificationResponse_expires_at :: json
  SendVerificationResponse_sandbox :: json
  SendVerificationResponse_sandbox_code :: json
  SendVerificationResponse_message :: json

record check_verification_response =
  CheckVerificationResponse_id :: json
  CheckVerificationResponse_status :: json
  CheckVerificationResponse_phone :: json
  CheckVerificationResponse_verified_at :: json
  CheckVerificationResponse_remaining_attempts :: json

record verification =
  Verification_id :: json
  Verification_status :: json
  Verification_phone :: json
  Verification_delivery_status :: json
  Verification_attempts :: json
  Verification_max_attempts :: json
  Verification_expires_at :: json
  Verification_verified_at :: json
  Verification_created_at :: json
  Verification_sandbox :: json
  Verification_app_name :: json
  Verification_template_id :: json
  Verification_profile_id :: json

record verification_list_response =
  VerificationListResponse_verifications :: "verification list"
  VerificationListResponse_pagination :: json

section \<open>campaigns.py: CampaignsResource\<close>

definition transform_campaign :: "json \<Rightarrow> error + campaign" where
  "transform_campaign data =
     err_bind (py_getitem data ''id'') (\<lambda>v_id.
     err_bind (py_getitem data ''name'') (\<lambda>v_name.
     err_bind (py_getitem data ''text'') (\<lambda>v_text.
     err_bind (py_get data ''template_id'') (\<lambda>v_template_id.
     err_bind (py_get_default data ''contact_list_ids'' (JArray [])) (\<lambda>v_contact_list_ids.
     err_bind (py_getitem data ''status'') (\<lambda>v_status.
     err_bind (py_get_default data ''recipient_count'' (JInt 0)) (\<lambda>v_recipient_count.
     err_bind (py_get_default data ''sent_count'' (JInt 0)) (\<lambda>v_sent_count.
     err_bind (py_get_default data ''delivered_count'' (JInt 0)) (\<lambda>v_delivered_count.
     err_bind (py_get_default data ''failed_count'' (JInt 0)) (\<lambda>v_failed_count.
     err_bind (py_get_default data ''estimated_credits'' (JInt 0)) (\<lambda>v_estimated_credits.
     err_bind (py_get_default data ''credits_used'' (JInt 0)) (\<lambda>v_credits_used.
     err_bind (py_get data ''scheduled_at'') (\<lambda>v_scheduled_at.
     err_bind (py_get data ''timezone'') (\<lambda>v_timezone.
     err_bind (py_get data ''started_at'') (\<lambda>v_started_at.
     err_bind (py_get data ''completed_at'') (\<lambda>v_completed_at.
     err_bind (py_getitem data ''created_at'') (\<lambda>v_created_at.
     err_bind (py_getitem data ''updated_at'') (\<lambda>v_updated_at.
     Inr \<lparr>Campaign_id = v_id,
          Campaign_name = v_name,
          Campaign_text = v_text,
          Campaign_template_id = v_template_id,
          Campaign_contact_list_ids = v_contact_list_ids,
          Campaign_status = v_status,
          Campaign_recipient_count = v_recipient_count,
          Campaign_sent_count = v_sent_count,
          Campaign_delivered_count = v_delivered_count,
          Campaign_failed_count = v_failed_count,
          Campaign_estimated_credits = v_estimated_credits,
          Campaign_credits_used = v_credits_used,
          Campaign_scheduled_at = v_scheduled_at,
          Campaign_timezone = v_timezone,
          Campaign_started_at = v_started_at,
          Campaign_completed_at = v_completed_at,
          Campaign_created_at = v_created_at,
          Campaign_updated_at = v_updated_at\<rparr>))))))))))))))))))"

definition campaigns_create_request ::
  "string \<Rightarrow> string \<Rightarrow> string list \<Rightarrow> string option \<Rightarrow> request" where
  "campaigns_create_request name text contact_list_ids template_id =
     (let body = [(''name'', JString name),
                  (''text'', JString text),
                  (''contactListIds'', of_strs contact_list_ids)];
          body = set_if_truthy ''templateId'' (of_str template_id) body
      in \<lparr>req_method = ''POST'', req_path = ''/campaigns'',
          req_json = Some body, req_params = None\<rparr>)"

definition campaigns_create ::
  "transport \<Rightarrow> string \<Rightarrow> string \<Rightarrow> string list \<Rightarrow> string option \<Rightarrow> error + campaign" where
  "campaigns_create http name text contact_list_ids template_id =
     err_bind (http (campaigns_create_request name text contact_list_ids template_id))
       transform_campaign"

definition campaigns_list_request ::
  "int option \<Rightarrow> int option \<Rightarrow> string option \<Rightarrow> request" where
  "campaigns_list_request limit offset status =
     (let params = [];
          params = set_if_truthy ''limit'' (of_int_opt limit) params;
          params = set_if_truthy ''offset'' (of_int_opt offset) params;
          params = set_if_truthy ''status'' (of_str status) params
      in \<lparr>req_method = ''GET'', req_path = ''/campaigns'',
          req_json = None, req_params = or_none params\<rparr>)"

definition campaigns_list_response :: "json \<Rightarrow> error + campaign_list_response" where
  "campaigns_list_response data =
     err_bind (py_getitem data ''campaigns'') (\<lambda>src.
     err_bind (py_iter src) (\<lambda>items.
     err_bind (comprehension transform_campaign items) (\<lambda>v_campaigns.
     err_bind (py_getitem data ''total'') (\<lambda>v_total.
     err_bind (py_getitem data ''limit'') (\<lambda>v_limit.
     err_bind (py_getitem data ''offset'') (\<lambda>v_offset.
     Inr \<lparr>CampaignListResponse_campaigns = v_campaigns,
          CampaignListResponse_total = v_total,
          CampaignListResponse_limit = v_limit,
          CampaignListResponse_offset = v_offset\<rparr>))))))"

definition campaigns_list ::
  "transport \<Rightarrow> int option \<Rightarrow> int option \<Rightarrow> string option \<Rightarrow> error + campaign_list_response" where
  "campaigns_list http limit offset status =
     err_bind (http (campaigns_list_request limit offset status)) campaigns_list_response"

definition campaigns_get_request :: "string \<Rightarrow> request" where
  "campaigns_get_request campaign_id =
     \<lparr>req_method = ''GET'', req_path = ''/campaigns/'' @ campaign_id,
      req_json = None, req_params = None\<rparr>"

definition campaigns_get :: "transport \<Rightarrow> string \<Rightarrow> error + campaign" where
  "campaigns_get http campaign_id =
     err_bind (http (campaigns_get_request campaign_id)) transform_campaign"

definition campaigns_update_request ::
  "string \<Rightarrow> string option \<Rightarrow> string option \<Rightarrow> string option \<Rightarrow> string list option \<Rightarrow> request"
  where
  "campaigns_update_request campaign_id name text template_id contact_list_ids =
     (let body = [];
          body = set_if_not_none ''name'' (of_str name) body;
          body = set_if_not_none ''text'' (of_str text) body;
          body = set_if_not_none ''templateId'' (of_str template_id) body;
          body = set_if_not_none ''contactListIds'' (of_strs_opt contact_list_ids) body
      in \<lparr>req_method = ''PATCH'', req_path = ''/campaigns/'' @ campaign_id,
          req_json = Some body, req_params = None\<rparr>)"

definition campaigns_update ::
  "transport \<Rightarrow> string \<Rightarrow> string option \<Rightarrow> string option \<Rightarrow> string option \<Rightarrow>
   string list option \<Rightarrow> error + campaign" where
  "campaigns_update http campaign_id name text template_id contact_list_ids =
     err_bind (http (campaigns_update_request campaign_id name text template_id contact_list_ids))
       transform_campaign"

definition campaigns_delete_request :: "string \<Rightarrow> request" where
  "campaigns_delete_request campaign_id =
     \<lparr>req_method = ''DELETE'', req_path = ''/campaigns/'' @ campaign_id,
      req_json = None, req_params = None\<rparr>"

definition campaigns_delete :: "transport \<Rightarrow> string \<Rightarrow> error + unit" where
  "campaigns_delete http campaign_id =
     err_bind (http (campaigns_delete_request campaign_id)) (\<lambda>data. Inr ())"

definition campaigns_preview_request :: "string \<Rightarrow> request" where
  "campaigns_preview_request campaign_id =
     \<lparr>req_method = ''GET'', req_path = ''/campaigns/'' @ campaign_id @ ''/preview'',
      req_json = None, req_params = None\<rparr>"

definition campaigns_preview_response :: "json \<Rightarrow> error + campaign_preview" where
  "campaigns_preview_response data =
     err_bind (py_getitem data ''id'') (\<lambda>v_id.
     err_bind (py_getitem data ''recipient_count'') (\<lambda>v_recipient_count.
     err_bind (py_getitem data ''estimated_segments'') (\<lambda>v_estimated_segments.
     err_bind (py_getitem data ''estimated_credits'') (\<lambda>v_estimated_credits.
     err_bind (py_getitem data ''current_balance'') (\<lambda>v_current_balance.
     err_bind (py_getitem data ''has_enough_credits'') (\<lambda>v_has_enough_credits.
     err_bind (py_get data ''breakdown'') (\<lambda>v_breakdown.
     Inr \<lparr>CampaignPreview_id = v_id,
          CampaignPreview_recipient_count = v_recipient_count,
          CampaignPreview_estimated_segments = v_estimated_segments,
          CampaignPreview_estimated_credits = v_estimated_credits,
          CampaignPreview_current_balance = v_current_balance,
          CampaignPreview_has_enough_credits = v_has_enough_credits,
          CampaignPreview_breakdown = v_breakdown\<rparr>)))))))"

definition campaigns_preview :: "transport \<Rightarrow> string \<Rightarrow> error + campaign_preview" where
  "campaigns_preview http campaign_id =
     err_bind (http (campaigns_preview_request campaign_id)) campaigns_preview_response"

definition campaigns_send_request :: "string \<Rightarrow> request" where
  "campaigns_send_request campaign_id =
     \<lparr>req_method = ''POST'', req_path = ''/campaigns/'' @ campaign_id @ ''/send'',
      req_json = None, req_params = None\<rparr>"

definition campaigns_send :: "transport \<Rightarrow> string \<Rightarrow> error + campaign" where
  "campaigns_send http campaign_id =
     err_bind (http (campaigns_send_request campaign_id)) transform_campaign"

definition campaigns_schedule_request :: "string \<Rightarrow> string \<Rightarrow> string option \<Rightarrow> request" where
  "campaigns_schedule_request campaign_id scheduled_at timezone =
     (let body = [(''scheduledAt'', JString scheduled_at)];
          body = set_if_truthy ''timezone'' (of_str timezone) body
      in \<lparr>req_method = ''POST'', req_path = ''/campaigns/'' @ campaign_id @ ''/schedule'',
          req_json = Some body, req_params = None\<rparr>)"

definition campaigns_schedule ::
  "transport \<Rightarrow> string \<Rightarrow> string \<Rightarrow> string option \<Rightarrow> error + campaign" where
  "campaigns_schedule http campaign_id scheduled_at timezone =
     err_bind (http (campaigns_schedule_request campaign_id scheduled_at timezone))
       transform_campaign"

definition campaigns_cancel_request :: "string \<Rightarrow> request" where
  "campaigns_cancel_request campaign_id =
     \<lparr>req_method = ''POST'', req_path = ''/campaigns/'' @ campaign_id @ ''/cancel'',
      req_json = None, req_params = None\<rparr>"

definition campaigns_cancel :: "transport \<Rightarrow> string \<Rightarrow> error + campaign" where
  "campaigns_cancel http campaign_id =
     err_bind (http (campaigns_cancel_request campaign_id)) transform_campaign"

definition campaigns_clone_request :: "string \<Rightarrow> request" where
  "campaigns_clone_request campaign_id =
     \<lparr>req_method = ''POST'', req_path = ''/campaigns/'' @ campaign_id @ ''/clone'',
      req_json = None, req_params = None\<rparr>"

definition campaigns_clone :: "transport \<Rightarrow> string \<Rightarrow> error + campaign" where
  "campaigns_clone http campaign_id =
     err_bind (http (campaigns_clone_request campaign_id)) transform_campaign"

section \<open>contacts.py: ContactListsResource\<close>

text \<open>The dict literal built for each member in \<open>_transform_list\<close>.\<close>

definition transform_list_member :: "json \<Rightarrow> error + json" where
  "transform_list_member c =
     err_bind (py_getitem c ''id'') (\<lambda>v_id.
     err_bind (py_getitem c ''phone_number'') (\<lambda>v_phone_number.
     err_bind (py_get c ''name'') (\<lambda>v_name.
     err_bind (py_get c ''email'') (\<lambda>v_email.
     Inr (JObject [(''id'', v_id),
                   (''phone_number'', v_phone_number),
                   (''name'', v_name),
                   (''email'', v_email)])))))"

definition transform_list :: "json \<Rightarrow> error + contact_list" where
  "transform_list data =
     err_bind (py_contains ''contacts'' data) (\<lambda>present.
     err_bind (if present
               then err_bind (py_getitem data ''contacts'') (\<lambda>v. Inr (py_truthy v))
               else Inr False) (\<lambda>cond.
     err_bind (if cond
               then err_bind (py_getitem data ''contacts'') (\<lambda>src.
                    err_bind (py_iter src) (\<lambda>items.
                    err_bind (comprehension transform_list_member items) (\<lambda>cs.
                    Inr (JArray cs))))
               else Inr JNull) (\<lambda>contacts.
     err_bind (py_getitem data ''id'') (\<lambda>v_id.
     err_bind (py_getitem data ''name'') (\<lambda>v_name.
     err_bind (py_get data ''description'') (\<lambda>v_description.
     err_bind (py_get_default data ''contact_count'' (JInt 0)) (\<lambda>v_contact_count.
     err_bind (py_getitem data ''created_at'') (\<lambda>v_created_at.
     err_bind (py_get data ''updated_at'') (\<lambda>v_updated_at.
     err_bind (py_get data ''contacts_total'') (\<lambda>v_contacts_total.
     Inr \<lparr>ContactList_id = v_id,
          ContactList_name = v_name,
          ContactList_description = v_description,
          ContactList_contact_count = v_contact_count,
          ContactList_created_at = v_created_at,
          ContactList_updated_at = v_updated_at,
          ContactList_contacts = contacts,
          ContactList_contacts_total = v_contacts_total\<rparr>))))))))))"

definition contact_lists_list_request :: request where
  "contact_lists_list_request =
     \<lparr>req_method = ''GET'', req_path = ''/contact-lists'',
      req_json = None, req_params = None\<rparr>"

definition contact_lists_list_response :: "json \<Rightarrow> error + contact_lists_response" where
  "contact_lists_list_response data =
     err_bind (py_getitem data ''lists'') (\<lambda>src.
     err_bind (py_iter src) (\<lambda>items.
     err_bind (comprehension transform_list items) (\<lambda>v_lists.
     Inr \<lparr>ContactListsResponse_lists = v_lists\<rparr>)))"

definition contact_lists_list :: "transport \<Rightarrow> error + contact_lists_response" where
  "contact_lists_list http =
     err_bind (http contact_lists_list_request) contact_lists_list_response"

definition contact_lists_get_request :: "string \<Rightarrow> int option \<Rightarrow> int option \<Rightarrow> request" where
  "contact_lists_get_request list_id limit offset =
     (let params = [];
          params = set_if_truthy ''limit'' (of_int_opt limit) params;
          params = set_if_truthy ''offset'' (of_int_opt offset) params
      in \<lparr>req_method = ''GET'', req_path = ''/contact-lists/'' @ list_id,
          req_json = None, req_params = or_none params\<rparr>)"

definition contact_lists_get ::
  "transport \<Rightarrow> string \<Rightarrow> int option \<Rightarrow> int option \<Rightarrow> error + contact_list" where
  "contact_lists_get http list_id limit offset =
     err_bind (http (contact_lists_get_request list_id limit offset)) transform_list"

definition contact_lists_create_request :: "string \<Rightarrow> string option \<Rightarrow> request" where
  "contact_lists_create_request name description =
     (let body = [(''name'', JString name)];
          body = set_if_truthy ''description'' (of_str description) body
      in \<lparr>req_method = ''POST'', req_path = ''/contact-lists'',
          req_json = Some body, req_params = None\<rparr>)"

definition contact_lists_create ::
  "transport \<Rightarrow> string \<Rightarrow> string option \<Rightarrow> error + contact_list" where
  "contact_lists_create http name description =
     err_bind (http (contact_lists_create_request name description)) transform_list"

definition contact_lists_update_request ::
  "string \<Rightarrow> string option \<Rightarrow> string option \<Rightarrow> request" where
  "contact_lists_update_request list_id name description =
     (let body = [];
          body = set_if_not_none ''name'' (of_str name) body;
          body = set_if_not_none ''description'' (of_str description) body
      in \<lparr>req_method = ''PATCH'', req_path = ''/contact-lists/'' @ list_id,
          req_json = Some body, req_params = None\<rparr>)"

definition contact_lists_update ::
  "transport \<Rightarrow> string \<Rightarrow> string option \<Rightarrow> string option \<Rightarrow> error + contact_list" where
  "contact_lists_update http list_id name description =
     err_bind (http (contact_lists_update_request list_id name description)) transform_list"

definition contact_lists_delete_request :: "string \<Rightarrow> request" where
  "contact_lists_delete_request list_id =
     \<lparr>req_method = ''DELETE'', req_path = ''/contact-lists/'' @ list_id,
      req_json = None, req_params = None\<rparr>"

definition contact_lists_delete :: "transport \<Rightarrow> string \<Rightarrow> error + unit" where
  "contact_lists_delete http list_id =
     err_bind (http (contact_lists_delete_request list_id)) (\<lambda>data. Inr ())"

definition contact_lists_add_contacts_request :: "string \<Rightarrow> string list \<Rightarrow> request" where
  "contact_lists_add_contacts_request list_id contact_ids =
     \<lparr>req_method = ''POST'', req_path = ''/contact-lists/'' @ list_id @ ''/contacts'',
      req_json = Some [(''contact_ids'', of_strs contact_ids)], req_params = None\<rparr>"

definition contact_lists_add_contacts_response :: "json \<Rightarrow> error + dict" where
  "contact_lists_add_contacts_response data =
     err_bind (py_getitem data ''added_count'') (\<lambda>v_added_count.
     Inr [(''added_count'', v_added_count)])"

definition contact_lists_add_contacts ::
  "transport \<Rightarrow> string \<Rightarrow> string list \<Rightarrow> error + dict" where
  "contact_lists_add_contacts http list_id contact_ids =
     err_bind (http (contact_lists_add_contacts_request list_id contact_ids))
       contact_lists_add_contacts_response"

definition contact_lists_remove_contact_request :: "string \<Rightarrow> string \<Rightarrow> request" where
  "contact_lists_remove_contact_request list_id contact_id =
     \<lparr>req_method = ''DELETE'',
      req_path = ''/contact-lists/'' @ list_id @ ''/contacts/'' @ contact_id,
      req_json = None, req_params = None\<rparr>"

definition contact_lists_remove_contact :: "transport \<Rightarrow> string \<Rightarrow> string \<Rightarrow> error + unit" where
  "contact_lists_remove_contact http list_id contact_id =
     err_bind (http (contact_lists_remove_contact_request list_id contact_id)) (\<lambda>data. Inr ())"

section \<open>contacts.py: ContactsResource\<close>

text \<open>The dict literal built for each list in \<open>_transform_contact\<close>.\<close>

definition transform_contact_list_ref :: "json \<Rightarrow> error + json" where
  "transform_contact_list_ref lst =
     err_bind (py_getitem lst ''id'') (\<lambda>v_id.
     err_bind (py_getitem lst ''name'') (\<lambda>v_name.
     Inr (JObject [(''id'', v_id), (''name'', v_name)])))"

definition transform_contact :: "json \<Rightarrow> error + contact" where
  "transform_contact data =
     err_bind (py_contains ''lists'' data) (\<lambda>present.
     err_bind (if present
               then err_bind (py_getitem data ''lists'') (\<lambda>v. Inr (py_truthy v))
               else Inr False) (\<lambda>cond.
     err_bind (if cond
               then err_bind (py_getitem data ''lists'') (\<lambda>src.
                    err_bind (py_iter src) (\<lambda>items.
                    err_bind (comprehension transform_contact_list_ref items) (\<lambda>ls.
                    Inr (JArray ls))))
               else Inr JNull) (\<lambda>lists.
     err_bind (py_getitem data ''id'') (\<lambda>v_id.
     err_bind (py_getitem data ''phone_number'') (\<lambda>v_phone_number.
     err_bind (py_get data ''name'') (\<lambda>v_name.
     err_bind (py_get data ''email'') (\<lambda>v_email.
     err_bind (py_get data ''metadata'') (\<lambda>v_metadata.
     err_bind (py_get_default data ''opted_out'' (JBool False)) (\<lambda>v_opted_out.
     err_bind (py_getitem data ''created_at'') (\<lambda>v_created_at.
     err_bind (py_get data ''updated_at'') (\<lambda>v_updated_at.
     Inr \<lparr>Contact_id = v_id,
          Contact_phone_number = v_phone_number,
          Contact_name = v_name,
          Contact_email = v_email,
          Contact_metadata = v_metadata,
          Contact_opted_out = v_opted_out,
          Contact_created_at = v_created_at,
          Contact_updated_at = v_updated_at,
          Contact_lists = lists\<rparr>)))))))))))"

definition contacts_list_request ::
  "int option \<Rightarrow> int option \<Rightarrow> string option \<Rightarrow> string option \<Rightarrow> request" where
  "contacts_list_request limit offset search list_id =
     (let params = [];
          params = set_if_truthy ''limit'' (of_int_opt limit) params;
          params = set_if_truthy ''offset'' (of_int_opt offset) params;
          params = set_if_truthy ''search'' (of_str search) params;
          params = set_if_truthy ''list_id'' (of_str list_id) params
      in \<lparr>req_method = ''GET'', req_path = ''/contacts'',
          req_json = None, req_params = or_none params\<rparr>)"

definition contacts_list_response :: "json \<Rightarrow> error + contact_list_response" where
  "contacts_list_response data =
     err_bind (py_getitem data ''contacts'') (\<lambda>src.
     err_bind (py_iter src) (\<lambda>items.
     err_bind (comprehension transform_contact items) (\<lambda>v_contacts.
     err_bind (py_getitem data ''total'') (\<lambda>v_total.
     err_bind (py_getitem data ''limit'') (\<lambda>v_limit.
     err_bind (py_getitem data ''offset'') (\<lambda>v_offset.
     Inr \<lparr>ContactListResponse_contacts = v_contacts,
          ContactListResponse_total = v_total,
          ContactListResponse_limit = v_limit,
          ContactListResponse_offset = v_offset\<rparr>))))))"

definition contacts_list ::
  "transport \<Rightarrow> int option \<Rightarrow> int option \<Rightarrow> string option \<Rightarrow> string option \<Rightarrow>
   error + contact_list_response" where
  "contacts_list http limit offset search list_id =
     err_bind (http (contacts_list_request limit offset search list_id)) contacts_list_response"

definition contacts_get_request :: "string \<Rightarrow> request" where
  "contacts_get_request contact_id =
     \<lparr>req_method = ''GET'', req_path = ''/contacts/'' @ contact_id,
      req_json = None, req_params = None\<rparr>"

definition contacts_get :: "transport \<Rightarrow> string \<Rightarrow> error + contact" where
  "contacts_get http contact_id =
     err_bind (http (contacts_get_request contact_id)) transform_contact"

definition contacts_create_request ::
  "string \<Rightarrow> string option \<Rightarrow> string option \<Rightarrow> dict option \<Rightarrow> request" where
  "contacts_create_request phone_number name email metadata =
     (let body = [(''phone_number'', JString phone_number)];
          body = set_if_truthy ''name'' (of_str name) body;
          body = set_if_truthy ''email'' (of_str email) body;
          body = set_if_truthy ''metadata'' (of_dict_opt metadata) body
      in \<lparr>req_method = ''POST'', req_path = ''/contacts'',
          req_json = Some body, req_params = None\<rparr>)"

definition contacts_create ::
  "transport \<Rightarrow> string \<Rightarrow> string option \<Rightarrow> string option \<Rightarrow> dict option \<Rightarrow> error + contact"
  where
  "contacts_create http phone_number name email metadata =
     err_bind (http (contacts_create_request phone_number name email metadata)) transform_contact"

definition contacts_update_request ::
  "string \<Rightarrow> string option \<Rightarrow> string option \<Rightarrow> dict option \<Rightarrow> request" where
  "contacts_update_request contact_id name email metadata =
     (let body = [];
          body = set_if_not_none ''name'' (of_str name) body;
          body = set_if_not_none ''email'' (of_str email) body;
          body = set_if_not_none ''metadata'' (of_dict_opt metadata) body
      in \<lparr>req_method = ''PATCH'', req_path = ''/contacts/'' @ contact_id,
          req_json = Some body, req_params = None\<rparr>)"

definition contacts_update ::
  "transport \<Rightarrow> string \<Rightarrow> string option \<Rightarrow> string option \<Rightarrow> dict option \<Rightarrow> error + contact"
  where
  "contacts_update http contact_id name email metadata =
     err_bind (http (contacts_update_request contact_id name email metadata)) transform_contact"

definition contacts_delete_request :: "string \<Rightarrow> request" where
  "contacts_delete_request contact_id =
     \<lparr>req_method = ''DELETE'', req_path = ''/contacts/'' @ contact_id,
      req_json = None, req_params = None\<rparr>"

definition contacts_delete :: "transport \<Rightarrow> string \<Rightarrow> error + unit" where
  "contacts_delete http contact_id =
     err_bind (http (contacts_delete_request contact_id)) (\<lambda>data. Inr ())"

text \<open>\<open>ImportContactItem.model_dump(exclude_none=True)\<close> belongs to the absent
  \<open>sendly.types\<close>; it is the parameter \<open>model_dump\<close>.\<close>

definition contacts_import_contacts_request ::
  "('item \<Rightarrow> dict) \<Rightarrow> 'item list \<Rightarrow> string option \<Rightarrow> string option \<Rightarrow> request" where
  "contacts_import_contacts_request model_dump contacts list_id opted_in_at =
     (let body = [(''contacts'', JArray (map (\<lambda>c. JObject (model_dump c)) contacts))];
          body = set_if_truthy ''listId'' (of_str list_id) body;
          body = set_if_truthy ''optedInAt'' (of_str opted_in_at) body
      in \<lparr>req_method = ''POST'', req_path = ''/contacts/import'',
          req_json = Some body, req_params = None\<rparr>)"

definition contacts_import_contacts_response :: "json \<Rightarrow> error + import_contacts_response" where
  "contacts_import_contacts_response data =
     err_bind (py_getitem data ''imported'') (\<lambda>v_imported.
     err_bind (py_getitem data ''skippedDuplicates'') (\<lambda>v_skipped_duplicates.
     err_bind (py_get_default data ''errors'' (JArray [])) (\<lambda>v_errors.
     err_bind (py_get_default data ''totalErrors'' (JInt 0)) (\<lambda>v_total_errors.
     Inr \<lparr>ImportContactsResponse_imported = v_imported,
          ImportContactsResponse_skipped_duplicates = v_skipped_duplicates,
          ImportContactsResponse_errors = v_errors,
          ImportContactsResponse_total_errors = v_total_errors\<rparr>))))"

definition contacts_import_contacts ::
  "transport \<Rightarrow> ('item \<Rightarrow> dict) \<Rightarrow> 'item list \<Rightarrow> string option \<Rightarrow> string option \<Rightarrow>
   error + import_contacts_response" where
  "contacts_import_contacts http model_dump contacts list_id opted_in_at =
     err_bind (http (contacts_import_contacts_request model_dump contacts list_id opted_in_at))
       contacts_import_contacts_response"

section \<open>verify.py: VerifyResource\<close>

definition verify_send_request ::
  "string \<Rightarrow> string option \<Rightarrow> string option \<Rightarrow> string option \<Rightarrow> int option \<Rightarrow> int option \<Rightarrow>
   request" where
  "verify_send_request to template_id profile_id app_name timeout_secs code_length =
     (let body = [(''to'', JString to)];
          body = set_if_truthy ''template_id'' (of_str template_id) body;
          body = set_if_truthy ''profile_id'' (of_str profile_id) body;
          body = set_if_truthy ''app_name'' (of_str app_name) body;
          body = set_if_truthy ''timeout_secs'' (of_int_opt timeout_secs) body;
          body = set_if_truthy ''code_length'' (of_int_opt code_length) body
      in \<lparr>req_method = ''POST'', req_path = ''/verify'',
          req_json = Some body, req_params = None\<rparr>)"

definition verify_send_response :: "json \<Rightarrow> error + send_verification_response" where
  "verify_send_response data =
     err_bind (py_getitem data ''id'') (\<lambda>v_id.
     err_bind (py_getitem data ''status'') (\<lambda>v_status.
     err_bind (py_getitem data ''phone'') (\<lambda>v_phone.
     err_bind (py_getitem data ''expires_at'') (\<lambda>v_expires_at.
     err_bind (py_getitem data ''sandbox'') (\<lambda>v_sandbox.
     err_bind (py_get data ''sandbox_code'') (\<lambda>v_sandbox_code.
     err_bind (py_get data ''message'') (\<lambda>v_message.
     Inr \<lparr>SendVerificationResponse_id = v_id,
          SendVerificationResponse_status = v_status,
          SendVerificationResponse_phone = v_phone,
          SendVerificationResponse_expires_at = v_expires_at,
          SendVerificationResponse_sandbox = v_sandbox,
          SendVerificationResponse_sandbox_code = v_sandbox_code,
          SendVerificationResponse_message = v_message\<rparr>)))))))"

definition verify_send ::
  "transport \<Rightarrow> string \<Rightarrow> string option \<Rightarrow> string option \<Rightarrow> string option \<Rightarrow> int option \<Rightarrow>
   int option \<Rightarrow> error + send_verification_response" where
  "verify_send http to template_id profile_id app_name timeout_secs code_length =
     err_bind
       (http (verify_send_request to template_id profile_id app_name timeout_secs code_length))
       verify_send_response"

definition verify_check_request :: "string \<Rightarrow> string \<Rightarrow> request" where
  "verify_check_request verification_id code =
     \<lparr>req_method = ''POST'', req_path = ''/verify/'' @ verification_id @ ''/check'',
      req_json = Some [(''code'', JString code)], req_params = None\<rparr>"

definition verify_check_response :: "json \<Rightarrow> error + check_verification_response" where
  "verify_check_response data =
     err_bind (py_getitem data ''id'') (\<lambda>v_id.
     err_bind (py_getitem data ''status'') (\<lambda>v_status.
     err_bind (py_getitem data ''phone'') (\<lambda>v_phone.
     err_bind (py_get data ''verified_at'') (\<lambda>v_verified_at.
     err_bind (py_get data ''remaining_attempts'') (\<lambda>v_remaining_attempts.
     Inr \<lparr>CheckVerificationResponse_id = v_id,
          CheckVerificationResponse_status = v_status,
          CheckVerificationResponse_phone = v_phone,
          CheckVerificationResponse_verified_at = v_verified_at,
          CheckVerificationResponse_remaining_attempts = v_remaining_attempts\<rparr>)))))"

definition verify_check ::
  "transport \<Rightarrow> string \<Rightarrow> string \<Rightarrow> error + check_verification_response" where
  "verify_check http verification_id code =
     err_bind (http (verify_check_request verification_id code)) verify_check_response"

definition verify_get_request :: "string \<Rightarrow> request" where
  "verify_get_request verification_id =
     \<lparr>req_method = ''GET'', req_path = ''/verify/'' @ verification_id,
      req_json = None, req_params = None\<rparr>"

definition verify_get_response :: "json \<Rightarrow> error + verification" where
  "verify_get_response data =
     err_bind (py_getitem data ''id'') (\<lambda>v_id.
     err_bind (py_getitem data ''status'') (\<lambda>v_status.
     err_bind (py_getitem data ''phone'') (\<lambda>v_phone.
     err_bind (py_getitem data ''delivery_status'') (\<lambda>v_delivery_status.
     err_bind (py_getitem data ''attempts'') (\<lambda>v_attempts.
     err_bind (py_getitem data ''max_attempts'') (\<lambda>v_max_attempts.
     err_bind (py_getitem data ''expires_at'') (\<lambda>v_expires_at.
     err_bind (py_get data ''verified_at'') (\<lambda>v_verified_at.
     err_bind (py_getitem data ''created_at'') (\<lambda>v_created_at.
     err_bind (py_getitem data ''sandbox'') (\<lambda>v_sandbox.
     err_bind (py_get data ''app_name'') (\<lambda>v_app_name.
     err_bind (py_get data ''template_id'') (\<lambda>v_template_id.
     err_bind (py_get data ''profile_id'') (\<lambda>v_profile_id.
     Inr \<lparr>Verification_id = v_id,
          Verification_status = v_status,
          Verification_phone = v_phone,
          Verification_delivery_status = v_delivery_status,
          Verification_attempts = v_attempts,
          Verification_max_attempts = v_max_attempts,
          Verification_expires_at = v_expires_at,
          Verification_verified_at = v_verified_at,
          Verification_created_at = v_created_at,
          Verification_sandbox = v_sandbox,
          Verification_app_name = v_app_name,
          Verification_template_id = v_template_id,
          Verification_profile_id = v_profile_id\<rparr>)))))))))))))"

definition verify_get :: "transport \<Rightarrow> string \<Rightarrow> error + verification" where
  "verify_get http verification_id =
     err_bind (http (verify_get_request verification_id)) verify_get_response"

text \<open>\<open>list\<close> passes \<open>params=params\<close>: the mapping itself, also when it is empty.\<close>

definition verify_list_request :: "int option \<Rightarrow> string option \<Rightarrow> request" where
  "verify_list_request limit status =
     (let params = [];
          params = set_if_truthy ''limit'' (of_int_opt limit) params;
          params = set_if_truthy ''status'' (of_str status) params
      in \<lparr>req_method = ''GET'', req_path = ''/verify'',
          req_json = None, req_params = Some params\<rparr>)"

text \<open>The \<open>Verification(...)\<close> built for each element in \<open>list\<close>.\<close>

definition verify_list_item :: "json \<Rightarrow> error + verification" where
  "verify_list_item v =
     err_bind (py_getitem v ''id'') (\<lambda>v_id.
     err_bind (py_getitem v ''status'') (\<lambda>v_status.
     err_bind (py_getitem v ''phone'') (\<lambda>v_phone.
     err_bind (py_getitem v ''delivery_status'') (\<lambda>v_delivery_status.
     err_bind (py_getitem v ''attempts'') (\<lambda>v_attempts.
     err_bind (py_getitem v ''max_attempts'') (\<lambda>v_max_attempts.
     err_bind (py_getitem v ''expires_at'') (\<lambda>v_expires_at.
     err_bind (py_get v ''verified_at'') (\<lambda>v_verified_at.
     err_bind (py_getitem v ''created_at'') (\<lambda>v_created_at.
     err_bind (py_getitem v ''sandbox'') (\<lambda>v_sandbox.
     err_bind (py_get v ''app_name'') (\<lambda>v_app_name.
     err_bind (py_get v ''template_id'') (\<lambda>v_template_id.
     err_bind (py_get v ''profile_id'') (\<lambda>v_profile_id.
     Inr \<lparr>Verification_id = v_id,
          Verification_status = v_status,
          Verification_phone = v_phone,
          Verification_delivery_status = v_delivery_status,
          Verification_attempts = v_attempts,
          Verification_max_attempts = v_max_attempts,
          Verification_expires_at = v_expires_at,
          Verification_verified_at = v_verified_at,
          Verification_created_at = v_created_at,
          Verification_sandbox = v_sandbox,
          Verification_app_name = v_app_name,
          Verification_template_id = v_template_id,
          Verification_profile_id = v_profile_id\<rparr>)))))))))))))"

definition verify_list_response :: "json \<Rightarrow> error + verification_list_response" where
  "verify_list_response data =
     err_bind (py_getitem data ''verifications'') (\<lambda>src.
     err_bind (py_iter src) (\<lambda>items.
     err_bind (comprehension verify_list_item items) (\<lambda>v_verifications.
     err_bind (py_getitem data ''pagination'') (\<lambda>v_pagination.
     Inr \<lparr>VerificationListResponse_verifications = v_verifications,
          VerificationListResponse_pagination = v_pagination\<rparr>))))"

definition verify_list ::
  "transport \<Rightarrow> int option \<Rightarrow> string option \<Rightarrow> error + verification_list_response" where
  "verify_list http limit status =
     err_bind (http (verify_list_request limit status)) verify_list_response"

section \<open>media.py: MediaResource\<close>

text \<open>
  \<open>upload\<close> bypasses \<open>request\<close>: it posts a multipart form through the underlying client
  and then calls the transport's \<open>_update_rate_limit_info\<close> and \<open>_parse_response\<close>.
  A file-like object is its optional \<open>name\<close> attribute and its content; a file part is
  the triple \<open>(filename, file, content_type)\<close>.
\<close>

record binary_io =
  io_name :: "string option"
  io_content :: string

record multipart_request =
  mp_path :: string
  mp_files :: "(string \<times> (string \<times> binary_io \<times> string)) list"
  mp_headers :: "(string \<times> string) list"

record http_response =
  resp_status_code :: int
  resp_headers :: "(string \<times> string) list"
  resp_body :: string

text \<open>\<open>user_agent\<close> is \<open>self._http.client.headers.get("User-Agent")\<close>, \<open>None\<close> when the
  client has no such header.\<close>

definition media_upload_request ::
  "string \<Rightarrow> string option \<Rightarrow> binary_io \<Rightarrow> string \<Rightarrow> multipart_request" where
  "media_upload_request api_key user_agent file content_type =
     (let filename = (case io_name file of None \<Rightarrow> ''upload'' | Some n \<Rightarrow> n)
      in \<lparr>mp_path = ''/media'',
          mp_files = [(''file'', (filename, file, content_type))],
          mp_headers =
            [(''Authorization'', ''Bearer '' @ api_key),
             (''Accept'', ''application/json''),
             (''User-Agent'', (case user_agent of None \<Rightarrow> [] | Some ua \<Rightarrow> ua))]\<rparr>)"

text \<open>\<open>MediaFile(**data)\<close> inside \<open>try\<close>: the constructor of the absent \<open>sendly.types\<close> is
  the parameter \<open>MediaFile\<close>; only its \<open>PydanticValidationError\<close> is caught and
  re-raised as a \<open>SendlyError\<close>. Unpacking \<open>**data\<close> needs a mapping.\<close>

definition media_upload_response :: "(dict \<Rightarrow> error + 'm) \<Rightarrow> json \<Rightarrow> error + 'm" where
  "media_upload_response MediaFile data =
     (case data of
        JObject kvs \<Rightarrow>
          (case MediaFile kvs of
             Inl (PydanticValidationError e) \<Rightarrow>
               Inl (SendlyError (''Invalid API response format: '' @ e) ''invalid_response'' 200)
           | Inl other \<Rightarrow> Inl other
           | Inr media \<Rightarrow> Inr media)
      | _ \<Rightarrow> Inl TypeError)"

definition media_upload ::
  "(multipart_request \<Rightarrow> error + http_response) \<Rightarrow>
   ((string \<times> string) list \<Rightarrow> 'rl \<Rightarrow> 'rl) \<Rightarrow>
   (http_response \<Rightarrow> error + json) \<Rightarrow>
   (dict \<Rightarrow> error + 'm) \<Rightarrow>
   string \<Rightarrow> string option \<Rightarrow> 'rl \<Rightarrow> binary_io \<Rightarrow> string \<Rightarrow> (error + 'm) \<times> 'rl" where
  "media_upload post update_rate_limit_info parse_response MediaFile
       api_key user_agent rate_limit file content_type =
     (case post (media_upload_request api_key user_agent file content_type) of
        Inl e \<Rightarrow> (Inl e, rate_limit)
      | Inr response \<Rightarrow>
          (let rate_limit' = update_rate_limit_info (resp_headers response) rate_limit
           in (err_bind (parse_response response) (media_upload_response MediaFile),
               rate_limit')))"

section \<open>The asynchronous facades\<close>

text \<open>
  Every \<open>Async...Resource\<close> class is written out a second time in the sources, with
  \<open>await\<close> in front of the transport call. The definitions below are those classes, method
  by method; an awaited transport call is again a function from the request to the mapping
  or the error it resumes with. The suspension itself is not modelled.
\<close>

section \<open>campaigns.py: AsyncCampaignsResource\<close>

definition async_transform_campaign :: "json \<Rightarrow> error + campaign" where
  "async_transform_campaign data =
     err_bind (py_getitem data ''id'') (\<lambda>v_id.
     err_bind (py_getitem data ''name'') (\<lambda>v_name.
     err_bind (py_getitem data ''text'') (\<lambda>v_text.
     err_bind (py_get data ''template_id'') (\<lambda>v_template_id.
     err_bind (py_get_default data ''contact_list_ids'' (JArray [])) (\<lambda>v_contact_list_ids.
     err_bind (py_getitem data ''status'') (\<lambda>v_status.
     err_bind (py_get_default data ''recipient_count'' (JInt 0)) (\<lambda>v_recipient_count.
     err_bind (py_get_default data ''sent_count'' (JInt 0)) (\<lambda>v_sent_count.
     err_bind (py_get_default data ''delivered_count'' (JInt 0)) (\<lambda>v_delivered_count.
     err_bind (py_get_default data ''failed_count'' (JInt 0)) (\<lambda>v_failed_count.
     err_bind (py_get_default data ''estimated_credits'' (JInt 0)) (\<lambda>v_estimated_credits.
     err_bind (py_get_default data ''credits_used'' (JInt 0)) (\<lambda>v_credits_used.
     err_bind (py_get data ''scheduled_at'') (\<lambda>v_scheduled_at.
     err_bind (py_get data ''timezone'') (\<lambda>v_timezone.
     err_bind (py_get data ''started_at'') (\<lambda>v_started_at.
     err_bind (py_get data ''completed_at'') (\<lambda>v_completed_at.
     err_bind (py_getitem data ''created_at'') (\<lambda>v_created_at.
     err_bind (py_getitem data ''updated_at'') (\<lambda>v_updated_at.
     Inr \<lparr>Campaign_id = v_id,
          Campaign_name = v_name,
          Campaign_text = v_text,
          Campaign_template_id = v_template_id,
          Campaign_contact_list_ids = v_contact_list_ids,
          Campaign_status = v_status,
          Campaign_recipient_count = v_recipient_count,
          Campaign_sent_count = v_sent_count,
          Campaign_delivered_count = v_delivered_count,
          Campaign_failed_count = v_failed_count,
          Campaign_estimated_credits = v_estimated_credits,
          Campaign_credits_used = v_credits_used,
          Campaign_scheduled_at = v_scheduled_at,
          Campaign_timezone = v_timezone,
          Campaign_started_at = v_started_at,
          Campaign_completed_at = v_completed_at,
          Campaign_created_at = v_created_at,
          Campaign_updated_at = v_updated_at\<rparr>))))))))))))))))))"

definition async_campaigns_create_request ::
  "string \<Rightarrow> string \<Rightarrow> string list \<Rightarrow> string option \<Rightarrow> request" where
  "async_campaigns_create_request name text contact_list_ids template_id =
     (let body = [(''name'', JString name),
                  (''text'', JString text),
                  (''contactListIds'', of_strs contact_list_ids)];
          body = set_if_truthy ''templateId'' (of_str template_id) body
      in \<lparr>req_method = ''POST'', req_path = ''/campaigns'',
          req_json = Some body, req_params = None\<rparr>)"

definition async_campaigns_create ::
  "transport \<Rightarrow> string \<Rightarrow> string \<Rightarrow> string list \<Rightarrow> string option \<Rightarrow> error + campaign" where
  "async_campaigns_create http name text contact_list_ids template_id =
     err_bind (http (async_campaigns_create_request name text contact_list_ids template_id))
       async_transform_campaign"

definition async_campaigns_list_request ::
  "int option \<Rightarrow> int option \<Rightarrow> string option \<Rightarrow> request" where
  "async_campaigns_list_request limit offset status =
     (let params = [];
          params = set_if_truthy ''limit'' (of_int_opt limit) params;
          params = set_if_truthy ''offset'' (of_int_opt offset) params;
          params = set_if_truthy ''status'' (of_str status) params
      in \<lparr>req_method = ''GET'', req_path = ''/campaigns'',
          req_json = None, req_params = or_none params\<rparr>)"

definition async_campaigns_list_response :: "json \<Rightarrow> error + campaign_list_response" where
  "async_campaigns_list_response data =
     err_bind (py_getitem data ''campaigns'') (\<lambda>src.
     err_bind (py_iter src) (\<lambda>items.
     err_bind (comprehension async_transform_campaign items) (\<lambda>v_campaigns.
     err_bind (py_getitem data ''total'') (\<lambda>v_total.
     err_bind (py_getitem data ''limit'') (\<lambda>v_limit.
     err_bind (py_getitem data ''offset'') (\<lambda>v_offset.
     Inr \<lparr>CampaignListResponse_campaigns = v_campaigns,
          CampaignListResponse_total = v_total,
          CampaignListResponse_limit = v_limit,
          CampaignListResponse_offset = v_offset\<rparr>))))))"

definition async_campaigns_list ::
  "transport \<Rightarrow> int option \<Rightarrow> int option \<Rightarrow> string option \<Rightarrow> error + campaign_list_response" where
  "async_campaigns_list http limit offset status =
     err_bind (http (async_campaigns_list_request limit offset status)) async_campaigns_list_response"

definition async_campaigns_get_request :: "string \<Rightarrow> request" where
  "async_campaigns_get_request campaign_id =
     \<lparr>req_method = ''GET'', req_path = ''/campaigns/'' @ campaign_id,
      req_json = None, req_params = None\<rparr>"

definition async_campaigns_get :: "transport \<Rightarrow> string \<Rightarrow> error + campaign" where
  "async_campaigns_get http campaign_id =
     err_bind (http (async_campaigns_get_request campaign_id)) async_transform_campaign"

definition async_campaigns_update_request ::
  "string \<Rightarrow> string option \<Rightarrow> string option \<Rightarrow> string option \<Rightarrow> string list option \<Rightarrow> request"
  where
  "async_campaigns_update_request campaign_id name text template_id contact_list_ids =
     (let body = [];
          body = set_if_not_none ''name'' (of_str name) body;
          body = set_if_not_none ''text'' (of_str text) body;
          body = set_if_not_none ''templateId'' (of_str template_id) body;
          body = set_if_not_none ''contactListIds'' (of_strs_opt contact_list_ids) body
      in \<lparr>req_method = ''PATCH'', req_path = ''/campaigns/'' @ campaign_id,
          req_json = Some body, req_params = None\<rparr>)"

definition async_campaigns_update ::
  "transport \<Rightarrow> string \<Rightarrow> string option \<Rightarrow> string option \<Rightarrow> string option \<Rightarrow>
   string list option \<Rightarrow> error + campaign" where
  "async_campaigns_update http campaign_id name text template_id contact_list_ids =
     err_bind (http (async_campaigns_update_request campaign_id name text template_id contact_list_ids))
       async_transform_campaign"

definition async_campaigns_delete_request :: "string \<Rightarrow> request" where
  "async_campaigns_delete_request campaign_id =
     \<lparr>req_method = ''DELETE'', req_path = ''/campaigns/'' @ campaign_id,
      req_json = None, req_params = None\<rparr>"

definition async_campaigns_delete :: "transport \<Rightarrow> string \<Rightarrow> error + unit" where
  "async_campaigns_delete http campaign_id =
     err_bind (http (async_campaigns_delete_request campaign_id)) (\<lambda>data. Inr ())"

definition async_campaigns_preview_request :: "string \<Rightarrow> request" where
  "async_campaigns_preview_request campaign_id =
     \<lparr>req_method = ''GET'', req_path = ''/campaigns/'' @ campaign_id @ ''/preview'',
      req_json = None, req_params = None\<rparr>"

definition async_campaigns_preview_response :: "json \<Rightarrow> error + campaign_preview" where
  "async_campaigns_preview_response data =
     err_bind (py_getitem data ''id'') (\<lambda>v_id.
     err_bind (py_getitem data ''recipient_count'') (\<lambda>v_recipient_count.
     err_bind (py_getitem data ''estimated_segments'') (\<lambda>v_estimated_segments.
     err_bind (py_getitem data ''estimated_credits'') (\<lambda>v_estimated_credits.
     err_bind (py_getitem data ''current_balance'') (\<lambda>v_current_balance.
     err_bind (py_getitem data ''has_enough_credits'') (\<lambda>v_has_enough_credits.
     err_bind (py_get data ''breakdown'') (\<lambda>v_breakdown.
     Inr \<lparr>CampaignPreview_id = v_id,
          CampaignPreview_recipient_count = v_recipient_count,
          CampaignPreview_estimated_segments = v_estimated_segments,
          CampaignPreview_estimated_credits = v_estimated_credits,
          CampaignPreview_current_balance = v_current_balance,
          CampaignPreview_has_enough_credits = v_has_enough_credits,
          CampaignPreview_breakdown = v_breakdown\<rparr>)))))))"

definition async_campaigns_preview :: "transport \<Rightarrow> string \<Rightarrow> error + campaign_preview" where
  "async_campaigns_preview http campaign_id =
     err_bind (http (async_campaigns_preview_request campaign_id)) async_campaigns_preview_response"

definition async_campaigns_send_request :: "string \<Rightarrow> request" where
  "async_campaigns_send_request campaign_id =
     \<lparr>req_method = ''POST'', req_path = ''/campaigns/'' @ campaign_id @ ''/send'',
      req_json = None, req_params = None\<rparr>"

definition async_campaigns_send :: "transport \<Rightarrow> string \<Rightarrow> error + campaign" where
  "async_campaigns_send http campaign_id =
     err_bind (http (async_campaigns_send_request campaign_id)) async_transform_campaign"

definition async_campaigns_schedule_request :: "string \<Rightarrow> string \<Rightarrow> string option \<Rightarrow> request" where
  "async_campaigns_schedule_request campaign_id scheduled_at timezone =
     (let body = [(''scheduledAt'', JString scheduled_at)];
          body = set_if_truthy ''timezone'' (of_str timezone) body
      in \<lparr>req_method = ''POST'', req_path = ''/campaigns/'' @ campaign_id @ ''/schedule'',
          req_json = Some body, req_params = None\<rparr>)"

definition async_campaigns_schedule ::
  "transport \<Rightarrow> string \<Rightarrow> string \<Rightarrow> string option \<Rightarrow> error + campaign" where
  "async_campaigns_schedule http campaign_id scheduled_at timezone =
     err_bind (http (async_campaigns_schedule_request campaign_id scheduled_at timezone))
       async_transform_campaign"

definition async_campaigns_cancel_request :: "string \<Rightarrow> request" where
  "async_campaigns_cancel_request campaign_id =
     \<lparr>req_method = ''POST'', req_path = ''/campaigns/'' @ campaign_id @ ''/cancel'',
      req_json = None, req_params = None\<rparr>"

definition async_campaigns_cancel :: "transport \<Rightarrow> string \<Rightarrow> error + campaign" where
  "async_campaigns_cancel http campaign_id =
     err_bind (http (async_campaigns_cancel_request campaign_id)) async_transform_campaign"

definition async_campaigns_clone_request :: "string \<Rightarrow> request" where
  "async_campaigns_clone_request campaign_id =
     \<lparr>req_method = ''POST'', req_path = ''/campaigns/'' @ campaign_id @ ''/clone'',
      req_json = None, req_params = None\<rparr>"

definition async_campaigns_clone :: "transport \<Rightarrow> string \<Rightarrow> error + campaign" where
  "async_campaigns_clone http campaign_id =
     err_bind (http (async_campaigns_clone_request campaign_id)) async_transform_campaign"

section \<open>contacts.py: AsyncContactListsResource\<close>

text \<open>The dict literal built for each member in \<open>_transform_list\<close>.\<close>

definition async_transform_list_member :: "json \<Rightarrow> error + json" where
  "async_transform_list_member c =
     err_bind (py_getitem c ''id'') (\<lambda>v_id.
     err_bind (py_getitem c ''phone_number'') (\<lambda>v_phone_number.
     err_bind (py_get c ''name'') (\<lambda>v_name.
     err_bind (py_get c ''email'') (\<lambda>v_email.
     Inr (JObject [(''id'', v_id),
                   (''phone_number'', v_phone_number),
                   (''name'', v_name),
                   (''email'', v_email)])))))"

definition async_transform_list :: "json \<Rightarrow> error + contact_list" where
  "async_transform_list data =
     err_bind (py_contains ''contacts'' data) (\<lambda>present.
     err_bind (if present
               then err_bind (py_getitem data ''contacts'') (\<lambda>v. Inr (py_truthy v))
               else Inr False) (\<lambda>cond.
     err_bind (if cond
               then err_bind (py_getitem data ''contacts'') (\<lambda>src.
                    err_bind (py_iter src) (\<lambda>items.
                    err_bind (comprehension async_transform_list_member items) (\<lambda>cs.
                    Inr (JArray cs))))
               else Inr JNull) (\<lambda>contacts.
     err_bind (py_getitem data ''id'') (\<lambda>v_id.
     err_bind (py_getitem data ''name'') (\<lambda>v_name.
     err_bind (py_get data ''description'') (\<lambda>v_description.
     err_bind (py_get_default data ''contact_count'' (JInt 0)) (\<lambda>v_contact_count.
     err_bind (py_getitem data ''created_at'') (\<lambda>v_created_at.
     err_bind (py_get data ''updated_at'') (\<lambda>v_updated_at.
     err_bind (py_get data ''contacts_total'') (\<lambda>v_contacts_total.
     Inr \<lparr>ContactList_id = v_id,
          ContactList_name = v_name,
          ContactList_description = v_description,
          ContactList_contact_count = v_contact_count,
          ContactList_created_at = v_created_at,
          ContactList_updated_at = v_updated_at,
          ContactList_contacts = contacts,
          ContactList_contacts_total = v_contacts_total\<rparr>))))))))))"

definition async_contact_lists_list_request :: request where
  "async_contact_lists_list_request =
     \<lparr>req_method = ''GET'', req_path = ''/contact-lists'',
      req_json = None, req_params = None\<rparr>"

definition async_contact_lists_list_response :: "json \<Rightarrow> error + contact_lists_response" where
  "async_contact_lists_list_response data =
     err_bind (py_getitem data ''lists'') (\<lambda>src.
     err_bind (py_iter src) (\<lambda>items.
     err_bind (comprehension async_transform_list items) (\<lambda>v_lists.
     Inr \<lparr>ContactListsResponse_lists = v_lists\<rparr>)))"

definition async_contact_lists_list :: "transport \<Rightarrow> error + contact_lists_response" where
  "async_contact_lists_list http =
     err_bind (http async_contact_lists_list_request) async_contact_lists_list_response"

definition async_contact_lists_get_request :: "string \<Rightarrow> int option \<Rightarrow> int option \<Rightarrow> request" where
  "async_contact_lists_get_request list_id limit offset =
     (let params = [];
          params = set_if_truthy ''limit'' (of_int_opt limit) params;
          params = set_if_truthy ''offset'' (of_int_opt offset) params
      in \<lparr>req_method = ''GET'', req_path = ''/contact-lists/'' @ list_id,
          req_json = None, req_params = or_none params\<rparr>)"

definition async_contact_lists_get ::
  "transport \<Rightarrow> string \<Rightarrow> int option \<Rightarrow> int option \<Rightarrow> error + contact_list" where
  "async_contact_lists_get http list_id limit offset =
     err_bind (http (async_contact_lists_get_request list_id limit offset)) async_transform_list"

definition async_contact_lists_create_request :: "string \<Rightarrow> string option \<Rightarrow> request" where
  "async_contact_lists_create_request name description =
     (let body = [(''name'', JString name)];
          body = set_if_truthy ''description'' (of_str description) body
      in \<lparr>req_method = ''POST'', req_path = ''/contact-lists'',
          req_json = Some body, req_params = None\<rparr>)"

definition async_contact_lists_create ::
  "transport \<Rightarrow> string \<Rightarrow> string option \<Rightarrow> error + contact_list" where
  "async_contact_lists_create http name description =
     err_bind (http (async_contact_lists_create_request name description)) async_transform_list"

definition async_contact_lists_update_request ::
  "string \<Rightarrow> string option \<Rightarrow> string option \<Rightarrow> request" where
  "async_contact_lists_update_request list_id name description =
     (let body = [];
          body = set_if_not_none ''name'' (of_str name) body;
          body = set_if_not_none ''description'' (of_str description) body
      in \<lparr>req_method = ''PATCH'', req_path = ''/contact-lists/'' @ list_id,
          req_json = Some body, req_params = None\<rparr>)"

definition async_contact_lists_update ::
  "transport \<Rightarrow> string \<Rightarrow> string option \<Rightarrow> string option \<Rightarrow> error + contact_list" where
  "async_contact_lists_update http list_id name description =
     err_bind (http (async_contact_lists_update_request list_id name description)) async_transform_list"

definition async_contact_lists_delete_request :: "string \<Rightarrow> request" where
  "async_contact_lists_delete_request list_id =
     \<lparr>req_method = ''DELETE'', req_path = ''/contact-lists/'' @ list_id,
      req_json = None, req_params = None\<rparr>"

definition async_contact_lists_delete :: "transport \<Rightarrow> string \<Rightarrow> error + unit" where
  "async_contact_lists_delete http list_id =
     err_bind (http (async_contact_lists_delete_request list_id)) (\<lambda>data. Inr ())"

definition async_contact_lists_add_contacts_request :: "string \<Rightarrow> string list \<Rightarrow> request" where
  "async_contact_lists_add_contacts_request list_id contact_ids =
     \<lparr>req_method = ''POST'', req_path = ''/contact-lists/'' @ list_id @ ''/contacts'',
      req_json = Some [(''contact_ids'', of_strs contact_ids)], req_params = None\<rparr>"

definition async_contact_lists_add_contacts_response :: "json \<Rightarrow> error + dict" where
  "async_contact_lists_add_contacts_response data =
     err_bind (py_getitem data ''added_count'') (\<lambda>v_added_count.
     Inr [(''added_count'', v_added_count)])"

definition async_contact_lists_add_contacts ::
  "transport \<Rightarrow> string \<Rightarrow> string list \<Rightarrow> error + dict" where
  "async_contact_lists_add_contacts http list_id contact_ids =
     err_bind (http (async_contact_lists_add_contacts_request list_id contact_ids))
       async_contact_lists_add_contacts_response"

definition async_contact_lists_remove_contact_request :: "string \<Rightarrow> string \<Rightarrow> request" where
  "async_contact_lists_remove_contact_request list_id contact_id =
     \<lparr>req_method = ''DELETE'',
      req_path = ''/contact-lists/'' @ list_id @ ''/contacts/'' @ contact_id,
      req_json = None, req_params = None\<rparr>"

definition async_contact_lists_remove_contact :: "transport \<Rightarrow> string \<Rightarrow> string \<Rightarrow> error + unit" where
  "async_contact_lists_remove_contact http list_id contact_id =
     err_bind (http (async_contact_lists_remove_contact_request list_id contact_id)) (\<lambda>data. Inr ())"

section \<open>contacts.py: AsyncContactsResource\<close>

text \<open>The dict literal built for each list in \<open>_transform_contact\<close>.\<close>

definition async_transform_contact_list_ref :: "json \<Rightarrow> error + json" where
  "async_transform_contact_list_ref lst =
     err_bind (py_getitem lst ''id'') (\<lambda>v_id.
     err_bind (py_getitem lst ''name'') (\<lambda>v_name.
     Inr (JObject [(''id'', v_id), (''name'', v_name)])))"

definition async_transform_contact :: "json \<Rightarrow> error + contact" where
  "async_transform_contact data =
     err_bind (py_contains ''lists'' data) (\<lambda>present.
     err_bind (if present
               then err_bind (py_getitem data ''lists'') (\<lambda>v. Inr (py_truthy v))
               else Inr False) (\<lambda>cond.
     err_bind (if cond
               then err_bind (py_getitem data ''lists'') (\<lambda>src.
                    err_bind (py_iter src) (\<lambda>items.
                    err_bind (comprehension async_transform_contact_list_ref items) (\<lambda>ls.
                    Inr (JArray ls))))
               else Inr JNull) (\<lambda>lists.
     err_bind (py_getitem data ''id'') (\<lambda>v_id.
     err_bind (py_getitem data ''phone_number'') (\<lambda>v_phone_number.
     err_bind (py_get data ''name'') (\<lambda>v_name.
     err_bind (py_get data ''email'') (\<lambda>v_email.
     err_bind (py_get data ''metadata'') (\<lambda>v_metadata.
     err_bind (py_get_default data ''opted_out'' (JBool False)) (\<lambda>v_opted_out.
     err_bind (py_getitem data ''created_at'') (\<lambda>v_created_at.
     err_bind (py_get data ''updated_at'') (\<lambda>v_updated_at.
     Inr \<lparr>Contact_id = v_id,
          Contact_phone_number = v_phone_number,
          Contact_name = v_name,
          Contact_email = v_email,
          Contact_metadata = v_metadata,
          Contact_opted_out = v_opted_out,
          Contact_created_at = v_created_at,
          Contact_updated_at = v_updated_at,
          Contact_lists = lists\<rparr>)))))))))))"

definition async_contacts_list_request ::
  "int option \<Rightarrow> int option \<Rightarrow> string option \<Rightarrow> string option \<Rightarrow> request" where
  "async_contacts_list_request limit offset search list_id =
     (let params = [];
          params = set_if_truthy ''limit'' (of_int_opt limit) params;
          params = set_if_truthy ''offset'' (of_int_opt offset) params;
          params = set_if_truthy ''search'' (of_str search) params;
          params = set_if_truthy ''list_id'' (of_str list_id) params
      in \<lparr>req_method = ''GET'', req_path = ''/contacts'',
          req_json = None, req_params = or_none params\<rparr>)"

definition async_contacts_list_response :: "json \<Rightarrow> error + contact_list_response" where
  "async_contacts_list_response data =
     err_bind (py_getitem data ''contacts'') (\<lambda>src.
     err_bind (py_iter src) (\<lambda>items.
     err_bind (comprehension async_transform_contact items) (\<lambda>v_contacts.
     err_bind (py_getitem data ''total'') (\<lambda>v_total.
     err_bind (py_getitem data ''limit'') (\<lambda>v_limit.
     err_bind (py_getitem data ''offset'') (\<lambda>v_offset.
     Inr \<lparr>ContactListResponse_contacts = v_contacts,
          ContactListResponse_total = v_total,
          ContactListResponse_limit = v_limit,
          ContactListResponse_offset = v_offset\<rparr>))))))"

definition async_contacts_list ::
  "transport \<Rightarrow> int option \<Rightarrow> int option \<Rightarrow> string option \<Rightarrow> string option \<Rightarrow>
   error + contact_list_response" where
  "async_contacts_list http limit offset search list_id =
     err_bind (http (async_contacts_list_request limit offset search list_id)) async_contacts_list_response"

definition async_contacts_get_request :: "string \<Rightarrow> request" where
  "async_contacts_get_request contact_id =
     \<lparr>req_method = ''GET'', req_path = ''/contacts/'' @ contact_id,
      req_json = None, req_params = None\<rparr>"

definition async_contacts_get :: "transport \<Rightarrow> string \<Rightarrow> error + contact" where
  "async_contacts_get http contact_id =
     err_bind (http (async_contacts_get_request contact_id)) async_transform_contact"

definition async_contacts_create_request ::
  "string \<Rightarrow> string option \<Rightarrow> string option \<Rightarrow> dict option \<Rightarrow> request" where
  "async_contacts_create_request phone_number name email metadata =
     (let body = [(''phone_number'', JString phone_number)];
          body = set_if_truthy ''name'' (of_str name) body;
          body = set_if_truthy ''email'' (of_str email) body;
          body = set_if_truthy ''metadata'' (of_dict_opt metadata) body
      in \<lparr>req_method = ''POST'', req_path = ''/contacts'',
          req_json = Some body, req_params = None\<rparr>)"

definition async_contacts_create ::
  "transport \<Rightarrow> string \<Rightarrow> string option \<Rightarrow> string option \<Rightarrow> dict option \<Rightarrow> error + contact"
  where
  "async_contacts_create http phone_number name email metadata =
     err_bind (http (async_contacts_create_request phone_number name email metadata)) async_transform_contact"

definition async_contacts_update_request ::
  "string \<Rightarrow> string option \<Rightarrow> string option \<Rightarrow> dict option \<Rightarrow> request" where
  "async_contacts_update_request contact_id name email metadata =
     (let body = [];
          body = set_if_not_none ''name'' (of_str name) body;
          body = set_if_not_none ''email'' (of_str email) body;
          body = set_if_not_none ''metadata'' (of_dict_opt metadata) body
      in \<lparr>req_method = ''PATCH'', req_path = ''/contacts/'' @ contact_id,
          req_json = Some body, req_params = None\<rparr>)"

definition async_contacts_update ::
  "transport \<Rightarrow> string \<Rightarrow> string option \<Rightarrow> string option \<Rightarrow> dict option \<Rightarrow> error + contact"
  where
  "async_contacts_update http contact_id name email metadata =
     err_bind (http (async_contacts_update_request contact_id name email metadata)) async_transform_contact"

definition async_contacts_delete_request :: "string \<Rightarrow> request" where
  "async_contacts_delete_request contact_id =
     \<lparr>req_method = ''DELETE'', req_path = ''/contacts/'' @ contact_id,
      req_json = None, req_params = None\<rparr>"

definition async_contacts_delete :: "transport \<Rightarrow> string \<Rightarrow> error + unit" where
  "async_contacts_delete http contact_id =
     err_bind (http (async_contacts_delete_request contact_id)) (\<lambda>data. Inr ())"

text \<open>\<open>ImportContactItem.model_dump(exclude_none=True)\<close> belongs to the absent
  \<open>sendly.types\<close>; it is the parameter \<open>model_dump\<close>.\<close>

definition async_contacts_import_contacts_request ::
  "('item \<Rightarrow> dict) \<Rightarrow> 'item list \<Rightarrow> string option \<Rightarrow> string option \<Rightarrow> request" where
  "async_contacts_import_contacts_request model_dump contacts list_id opted_in_at =
     (let body = [(''contacts'', JArray (map (\<lambda>c. JObject (model_dump c)) contacts))];
          body = set_if_truthy ''listId'' (of_str list_id) body;
          body = set_if_truthy ''optedInAt'' (of_str opted_in_at) body
      in \<lparr>req_method = ''POST'', req_path = ''/contacts/import'',
          req_json = Some body, req_params = None\<rparr>)"

definition async_contacts_import_contacts_response :: "json \<Rightarrow> error + import_contacts_response" where
  "async_contacts_import_contacts_response data =
     err_bind (py_getitem data ''imported'') (\<lambda>v_imported.
     err_bind (py_getitem data ''skippedDuplicates'') (\<lambda>v_skipped_duplicates.
     err_bind (py_get_default data ''errors'' (JArray [])) (\<lambda>v_errors.
     err_bind (py_get_default data ''totalErrors'' (JInt 0)) (\<lambda>v_total_errors.
     Inr \<lparr>ImportContactsResponse_imported = v_imported,
          ImportContactsResponse_skipped_duplicates = v_skipped_duplicates,
          ImportContactsResponse_errors = v_errors,
          ImportContactsResponse_total_errors = v_total_errors\<rparr>))))"

definition async_contacts_import_contacts ::
  "transport \<Rightarrow> ('item \<Rightarrow> dict) \<Rightarrow> 'item list \<Rightarrow> string option \<Rightarrow> string option \<Rightarrow>
   error + import_contacts_response" where
  "async_contacts_import_contacts http model_dump contacts list_id opted_in_at =
     err_bind (http (async_contacts_import_contacts_request model_dump contacts list_id opted_in_at))
       async_contacts_import_contacts_response"

section \<open>verify.py: AsyncVerifyResource\<close>

definition async_verify_send_request ::
  "string \<Rightarrow> string option \<Rightarrow> string option \<Rightarrow> string option \<Rightarrow> int option \<Rightarrow> int option \<Rightarrow>
   request" where
  "async_verify_send_request to template_id profile_id app_name timeout_secs code_length =
     (let body = [(''to'', JString to)];
          body = set_if_truthy ''template_id'' (of_str template_id) body;
          body = set_if_truthy ''profile_id'' (of_str profile_id) body;
          body = set_if_truthy ''app_name'' (of_str app_name) body;
          body = set_if_truthy ''timeout_secs'' (of_int_opt timeout_secs) body;
          body = set_if_truthy ''code_length'' (of_int_opt code_length) body
      in \<lparr>req_method = ''POST'', req_path = ''/verify'',
          req_json = Some body, req_params = None\<rparr>)"

definition async_verify_send_response :: "json \<Rightarrow> error + send_verification_response" where
  "async_verify_send_response data =
     err_bind (py_getitem data ''id'') (\<lambda>v_id.
     err_bind (py_getitem data ''status'') (\<lambda>v_status.
     err_bind (py_getitem data ''phone'') (\<lambda>v_phone.
     err_bind (py_getitem data ''expires_at'') (\<lambda>v_expires_at.
     err_bind (py_getitem data ''sandbox'') (\<lambda>v_sandbox.
     err_bind (py_get data ''sandbox_code'') (\<lambda>v_sandbox_code.
     err_bind (py_get data ''message'') (\<lambda>v_message.
     Inr \<lparr>SendVerificationResponse_id = v_id,
          SendVerificationResponse_status = v_status,
          SendVerificationResponse_phone = v_phone,
          SendVerificationResponse_expires_at = v_expires_at,
          SendVerificationResponse_sandbox = v_sandbox,
          SendVerificationResponse_sandbox_code = v_sandbox_code,
          SendVerificationResponse_message = v_message\<rparr>)))))))"

definition async_verify_send ::
  "transport \<Rightarrow> string \<Rightarrow> string option \<Rightarrow> string option \<Rightarrow> string option \<Rightarrow> int option \<Rightarrow>
   int option \<Rightarrow> error + send_verification_response" where
  "async_verify_send http to template_id profile_id app_name timeout_secs code_length =
     err_bind
       (http (async_verify_send_request to template_id profile_id app_name timeout_secs code_length))
       async_verify_send_response"

definition async_verify_check_request :: "string \<Rightarrow> string \<Rightarrow> request" where
  "async_verify_check_request verification_id code =
     \<lparr>req_method = ''POST'', req_path = ''/verify/'' @ verification_id @ ''/check'',
      req_json = Some [(''code'', JString code)], req_params = None\<rparr>"

definition async_verify_check_response :: "json \<Rightarrow> error + check_verification_response" where
  "async_verify_check_response data =
     err_bind (py_getitem data ''id'') (\<lambda>v_id.
     err_bind (py_getitem data ''status'') (\<lambda>v_status.
     err_bind (py_getitem data ''phone'') (\<lambda>v_phone.
     err_bind (py_get data ''verified_at'') (\<lambda>v_verified_at.
     err_bind (py_get data ''remaining_attempts'') (\<lambda>v_remaining_attempts.
     Inr \<lparr>CheckVerificationResponse_id = v_id,
          CheckVerificationResponse_status = v_status,
          CheckVerificationResponse_phone = v_phone,
          CheckVerificationResponse_verified_at = v_verified_at,
          CheckVerificationResponse_remaining_attempts = v_remaining_attempts\<rparr>)))))"

definition async_verify_check ::
  "transport \<Rightarrow> string \<Rightarrow> string \<Rightarrow> error + check_verification_response" where
  "async_verify_check http verification_id code =
     err_bind (http (async_verify_check_request verification_id code)) async_verify_check_response"

definition async_verify_get_request :: "string \<Rightarrow> request" where
  "async_verify_get_request verification_id =
     \<lparr>req_method = ''GET'', req_path = ''/verify/'' @ verification_id,
      req_json = None, req_params = None\<rparr>"

definition async_verify_get_response :: "json \<Rightarrow> error + verification" where
  "async_verify_get_response data =
     err_bind (py_getitem data ''id'') (\<lambda>v_id.
     err_bind (py_getitem data ''status'') (\<lambda>v_status.
     err_bind (py_getitem data ''phone'') (\<lambda>v_phone.
     err_bind (py_getitem data ''delivery_status'') (\<lambda>v_delivery_status.
     err_bind (py_getitem data ''attempts'') (\<lambda>v_attempts.
     err_bind (py_getitem data ''max_attempts'') (\<lambda>v_max_attempts.
     err_bind (py_getitem data ''expires_at'') (\<lambda>v_expires_at.
     err_bind (py_get data ''verified_at'') (\<lambda>v_verified_at.
     err_bind (py_getitem data ''created_at'') (\<lambda>v_created_at.
     err_bind (py_getitem data ''sandbox'') (\<lambda>v_sandbox.
     err_bind (py_get data ''app_name'') (\<lambda>v_app_name.
     err_bind (py_get data ''template_id'') (\<lambda>v_template_id.
     err_bind (py_get data ''profile_id'') (\<lambda>v_profile_id.
     Inr \<lparr>Verification_id = v_id,
          Verification_status = v_status,
          Verification_phone = v_phone,
          Verification_delivery_status = v_delivery_status,
          Verification_attempts = v_attempts,
          Verification_max_attempts = v_max_attempts,
          Verification_expires_at = v_expires_at,
          Verification_verified_at = v_verified_at,
          Verification_created_at = v_created_at,
          Verification_sandbox = v_sandbox,
          Verification_app_name = v_app_name,
          Verification_template_id = v_template_id,
          Verification_profile_id = v_profile_id\<rparr>)))))))))))))"

definition async_verify_get :: "transport \<Rightarrow> string \<Rightarrow> error + verification" where
  "async_verify_get http verification_id =
     err_bind (http (async_verify_get_request verification_id)) async_verify_get_response"

text \<open>\<open>list\<close> passes \<open>params=params\<close>: the mapping itself, also when it is empty.\<close>

definition async_verify_list_request :: "int option \<Rightarrow> string option \<Rightarrow> request" where
  "async_verify_list_request limit status =
     (let params = [];
          params = set_if_truthy ''limit'' (of_int_opt limit) params;
          params = set_if_truthy ''status'' (of_str status) params
      in \<lparr>req_method = ''GET'', req_path = ''/verify'',
          req_json = None, req_params = Some params\<rparr>)"

text \<open>The \<open>Verification(...)\<close> built for each element in \<open>list\<close>.\<close>

definition async_verify_list_item :: "json \<Rightarrow> error + verification" where
  "async_verify_list_item v =
     err_bind (py_getitem v ''id'') (\<lambda>v_id.
     err_bind (py_getitem v ''status'') (\<lambda>v_status.
     err_bind (py_getitem v ''phone'') (\<lambda>v_phone.
     err_bind (py_getitem v ''delivery_status'') (\<lambda>v_delivery_status.
     err_bind (py_getitem v ''attempts'') (\<lambda>v_attempts.
     err_bind (py_getitem v ''max_attempts'') (\<lambda>v_max_attempts.
     err_bind (py_getitem v ''expires_at'') (\<lambda>v_expires_at.
     err_bind (py_get v ''verified_at'') (\<lambda>v_verified_at.
     err_bind (py_getitem v ''created_at'') (\<lambda>v_created_at.
     err_bind (py_getitem v ''sandbox'') (\<lambda>v_sandbox.
     err_bind (py_get v ''app_name'') (\<lambda>v_app_name.
     err_bind (py_get v ''template_id'') (\<lambda>v_template_id.
     err_bind (py_get v ''profile_id'') (\<lambda>v_profile_id.
     Inr \<lparr>Verification_id = v_id,
          Verification_status = v_status,
          Verification_phone = v_phone,
          Verification_delivery_status = v_delivery_status,
          Verification_attempts = v_attempts,
          Verification_max_attempts = v_max_attempts,
          Verification_expires_at = v_expires_at,
          Verification_verified_at = v_verified_at,
          Verification_created_at = v_created_at,
          Verification_sandbox = v_sandbox,
          Verification_app_name = v_app_name,
          Verification_template_id = v_template_id,
          Verification_profile_id = v_profile_id\<rparr>)))))))))))))"

definition async_verify_list_response :: "json \<Rightarrow> error + verification_list_response" where
  "async_verify_list_response data =
     err_bind (py_getitem data ''verifications'') (\<lambda>src.
     err_bind (py_iter src) (\<lambda>items.
     err_bind (comprehension async_verify_list_item items) (\<lambda>v_verifications.
     err_bind (py_getitem data ''pagination'') (\<lambda>v_pagination.
     Inr \<lparr>VerificationListResponse_verifications = v_verifications,
          VerificationListResponse_pagination = v_pagination\<rparr>))))"

definition async_verify_list ::
  "transport \<Rightarrow> int option \<Rightarrow> string option \<Rightarrow> error + verification_list_response" where
  "async_verify_list http limit status =
     err_bind (http (async_verify_list_request limit status)) async_verify_list_response"

section \<open>media.py: AsyncMediaResource\<close>

text \<open>The awaited \<open>client.post\<close> is the parameter \<open>post\<close>.\<close>


text \<open>\<open>user_agent\<close> is \<open>self._http.client.headers.get("User-Agent")\<close>, \<open>None\<close> when the
  client has no such header.\<close>

definition async_media_upload_request ::
  "string \<Rightarrow> string option \<Rightarrow> binary_io \<Rightarrow> string \<Rightarrow> multipart_request" where
  "async_media_upload_request api_key user_agent file content_type =
     (let filename = (case io_name file of None \<Rightarrow> ''upload'' | Some n \<Rightarrow> n)
      in \<lparr>mp_path = ''/media'',
          mp_files = [(''file'', (filename, file, content_type))],
          mp_headers =
            [(''Authorization'', ''Bearer '' @ api_key),
             (''Accept'', ''application/json''),
             (''User-Agent'', (case user_agent of None \<Rightarrow> [] | Some ua \<Rightarrow> ua))]\<rparr>)"

text \<open>\<open>MediaFile(**data)\<close> inside \<open>try\<close>: the constructor of the absent \<open>sendly.types\<close> is
  the parameter \<open>MediaFile\<close>; only its \<open>PydanticValidationError\<close> is caught and
  re-raised as a \<open>SendlyError\<close>. Unpacking \<open>**data\<close> needs a mapping.\<close>

definition async_media_upload_response :: "(dict \<Rightarrow> error + 'm) \<Rightarrow> json \<Rightarrow> error + 'm" where
  "async_media_upload_response MediaFile data =
     (case data of
        JObject kvs \<Rightarrow>
          (case MediaFile kvs of
             Inl (PydanticValidationError e) \<Rightarrow>
               Inl (SendlyError (''Invalid API response format: '' @ e) ''invalid_response'' 200)
           | Inl other \<Rightarrow> Inl other
           | Inr media \<Rightarrow> Inr media)
      | _ \<Rightarrow> Inl TypeError)"

definition async_media_upload ::
  "(multipart_request \<Rightarrow> error + http_response) \<Rightarrow>
   ((string \<times> string) list \<Rightarrow> 'rl \<Rightarrow> 'rl) \<Rightarrow>
   (http_response \<Rightarrow> error + json) \<Rightarrow>
   (dict \<Rightarrow> error + 'm) \<Rightarrow>
   string \<Rightarrow> string option \<Rightarrow> 'rl \<Rightarrow> binary_io \<Rightarrow> string \<Rightarrow> (error + 'm) \<times> 'rl" where
  "async_media_upload post update_rate_limit_info parse_response MediaFile
       api_key user_agent rate_limit file content_type =
     (case post (async_media_upload_request api_key user_agent file content_type) of
        Inl e \<Rightarrow> (Inl e, rate_limit)
      | Inr response \<Rightarrow>
          (let rate_limit' = update_rate_limit_info (resp_headers response) rate_limit
           in (err_bind (parse_response response) (async_media_upload_response MediaFile),
               rate_limit')))"

section \<open>Reading a typed object back\<close>

text \<open>
  Modelled from the spec: attribute access on the value objects of the absent
  \<open>sendly.types\<close>. Each function lists the fields of a typed object under the names of
  the keyword arguments of its constructor call, so that \<open>map_of (Campaign_fields c) k\<close>
  reads the field \<open>k\<close> of \<open>c\<close>.
\<close>

definition Campaign_fields :: "campaign \<Rightarrow> dict" where
  "Campaign_fields x =
     [(''id'', Campaign_id x),
      (''name'', Campaign_name x),
      (''text'', Campaign_text x),
      (''template_id'', Campaign_template_id x),
      (''contact_list_ids'', Campaign_contact_list_ids x),
      (''status'', Campaign_status x),
      (''recipient_count'', Campaign_recipient_count x),
      (''sent_count'', Campaign_sent_count x),
      (''delivered_count'', Campaign_delivered_count x),
      (''failed_count'', Campaign_failed_count x),
      (''estimated_credits'', Campaign_estimated_credits x),
      (''credits_used'', Campaign_credits_used x),
      (''scheduled_at'', Campaign_scheduled_at x),
      (''timezone'', Campaign_timezone x),
      (''started_at'', Campaign_started_at x),
      (''completed_at'', Campaign_completed_at x),
      (''created_at'', Campaign_created_at x),
      (''updated_at'', Campaign_updated_at x)]"

definition CampaignPreview_fields :: "campaign_preview \<Rightarrow> dict" where
  "CampaignPreview_fields x =
     [(''id'', CampaignPreview_id x),
      (''recipient_count'', CampaignPreview_recipient_count x),
      (''estimated_segments'', CampaignPreview_estimated_segments x),
      (''estimated_credits'', CampaignPreview_estimated_credits x),
      (''current_balance'', CampaignPreview_current_balance x),
      (''has_enough_credits'', CampaignPreview_has_enough_credits x),
      (''breakdown'', CampaignPreview_breakdown x)]"

definition Contact_fields :: "contact \<Rightarrow> dict" where
  "Contact_fields x =
     [(''id'', Contact_id x),
      (''phone_number'', Contact_phone_number x),
      (''name'', Contact_name x),
      (''email'', Contact_email x),
      (''metadata'', Contact_metadata x),
      (''opted_out'', Contact_opted_out x),
      (''created_at'', Contact_created_at x),
      (''updated_at'', Contact_updated_at x),
      (''lists'', Contact_lists x)]"

definition ContactList_fields :: "contact_list \<Rightarrow> dict" where
  "ContactList_fields x =
     [(''id'', ContactList_id x),
      (''name'', ContactList_name x),
      (''description'', ContactList_description x),
      (''contact_count'', ContactList_contact_count x),
      (''created_at'', ContactList_created_at x),
      (''updated_at'', ContactList_updated_at x),
      (''contacts'', ContactList_contacts x),
      (''contacts_total'', ContactList_contacts_total x)]"

definition ImportContactsResponse_fields :: "import_contacts_response \<Rightarrow> dict" where
  "ImportContactsResponse_fields x =
     [(''imported'', ImportContactsResponse_imported x),
      (''skipped_duplicates'', ImportContactsResponse_skipped_duplicates x),
      (''errors'', ImportContactsResponse_errors x),
      (''total_errors'', ImportContactsResponse_total_errors x)]"

definition SendVerificationResponse_fields :: "send_verification_response \<Rightarrow> dict" where
  "SendVerificationResponse_fields x =
     [(''id'', SendVerificationResponse_id x),
      (''status'', SendVerificationResponse_status x),
      (''phone'', SendVerificationResponse_phone x),
      (''expires_at'', SendVerificationResponse_expires_at x),
      (''sandbox'', SendVerificationResponse_sandbox x),
      (''sandbox_code'', SendVerificationResponse_sandbox_code x),
      (''message'', SendVerificationResponse_message x)]"

definition CheckVerificationResponse_fields :: "check_verification_response \<Rightarrow> dict" where
  "CheckVerificationResponse_fields x =
     [(''id'', CheckVerificationResponse_id x),
      (''status'', CheckVerificationResponse_status x),
      (''phone'', CheckVerificationResponse_phone x),
      (''verified_at'', CheckVerificationResponse_verified_at x),
      (''remaining_attempts'', CheckVerificationResponse_remaining_attempts x)]"

definition Verification_fields :: "verification \<Rightarrow> dict" where
  "Verification_fields x =
     [(''id'', Verification_id x),
      (''status'', Verification_status x),
      (''phone'', Verification_phone x),
      (''delivery_status'', Verification_delivery_status x),
      (''attempts'', Verification_attempts x),
      (''max_attempts'', Verification_max_attempts x),
      (''expires_at'', Verification_expires_at x),
      (''verified_at'', Verification_verified_at x),
      (''created_at'', Verification_created_at x),
      (''sandbox'', Verification_sandbox x),
      (''app_name'', Verification_app_name x),
      (''template_id'', Verification_template_id x),
      (''profile_id'', Verification_profile_id x)]"

section \<open>Auxiliary facts\<close>

lemma of_None [simp]:
  "of_str None = JNull" "of_int_opt None = JNull" "of_strs_opt None = JNull"
  "of_dict_opt None = JNull"
  by (simp_all add: of_str_def of_int_opt_def of_strs_opt_def of_dict_opt_def)

lemma set_if_JNull [simp]:
  "set_if_truthy k JNull d = d" "set_if_not_none k JNull d = d"
  by (simp_all add: set_if_truthy_def set_if_not_none_def)

lemma keys_set_if_truthy:
  "fst ` set (set_if_truthy k v d) =
     (if py_truthy v then insert k (fst ` set d) else fst ` set d)"
  by (simp add: set_if_truthy_def dom_update)

lemma keys_set_if_not_none:
  "fst ` set (set_if_not_none k v d) =
     (if v \<noteq> JNull then insert k (fst ` set d) else fst ` set d)"
  by (simp add: set_if_not_none_def dom_update)

lemma keys_or_none:
  "(case or_none d of None \<Rightarrow> {} | Some d' \<Rightarrow> fst ` set d') = fst ` set d"
  by (simp add: or_none_def)

lemma map_of_set_if_not_none:
  "map_of (set_if_not_none k v d) = (if v \<noteq> JNull then (map_of d)(k \<mapsto> v) else map_of d)"
  by (simp add: set_if_not_none_def update_conv')

lemmas request_defs =
  campaigns_create_request_def campaigns_list_request_def campaigns_update_request_def 
  campaigns_schedule_request_def contact_lists_get_request_def 
  contact_lists_create_request_def contact_lists_update_request_def 
  contacts_list_request_def contacts_create_request_def contacts_update_request_def 
  contacts_import_contacts_request_def verify_send_request_def verify_list_request_def

lemmas async_request_defs =
  async_campaigns_create_request_def async_campaigns_list_request_def 
  async_campaigns_update_request_def async_campaigns_schedule_request_def 
  async_contact_lists_get_request_def async_contact_lists_create_request_def 
  async_contact_lists_update_request_def async_contacts_list_request_def 
  async_contacts_create_request_def async_contacts_update_request_def 
  async_contacts_import_contacts_request_def async_verify_send_request_def 
  async_verify_list_request_def

section \<open>Request construction\<close>

text \<open>
  Claim C3. \<open>CampaignsResource.list(limit=10, offset=0, status=None)\<close> issues a GET on
  \<open>/campaigns\<close> whose query parameters are exactly \<open>{"limit": 10}\<close>: the offset 0 is
  falsy and left out, and so is the absent status.
\<close>

theorem campaigns_list_omits_falsy_offset:
  "campaigns_list_request (Some 10) (Some 0) None =
     \<lparr>req_method = ''GET'', req_path = ''/campaigns'', req_json = None,
      req_params = Some [(''limit'', JInt 10)]\<rparr>"
  by (simp add: campaigns_list_request_def set_if_truthy_def of_int_opt_def or_none_def)

text \<open>
  Claim C4. Omit-absent: in every facade method that takes optional parameters, synchronous
  and asynchronous, a parameter left at \<open>None\<close> contributes no key to the request body or
  to the query parameters, whatever the other arguments are. In particular
  \<open>create("Welcome", "Hello {{name}}!", ["lst_1"])\<close> sends exactly the three keys
  \<open>name\<close>, \<open>text\<close> and \<open>contactListIds\<close>.
\<close>

theorem omit_absent:
  "''templateId'' \<notin> request_keys (campaigns_create_request a b xs None)
   \<and> ''limit'' \<notin> request_keys (campaigns_list_request None n p)
   \<and> ''offset'' \<notin> request_keys (campaigns_list_request m None p)
   \<and> ''status'' \<notin> request_keys (campaigns_list_request m n None)
   \<and> ''name'' \<notin> request_keys (campaigns_update_request a None q r ys)
   \<and> ''text'' \<notin> request_keys (campaigns_update_request a p None r ys)
   \<and> ''templateId'' \<notin> request_keys (campaigns_update_request a p q None ys)
   \<and> ''contactListIds'' \<notin> request_keys (campaigns_update_request a p q r None)
   \<and> ''timezone'' \<notin> request_keys (campaigns_schedule_request a b None)
   \<and> ''limit'' \<notin> request_keys (contact_lists_get_request a None n)
   \<and> ''offset'' \<notin> request_keys (contact_lists_get_request a m None)
   \<and> ''description'' \<notin> request_keys (contact_lists_create_request a None)
   \<and> ''name'' \<notin> request_keys (contact_lists_update_request a None q)
   \<and> ''description'' \<notin> request_keys (contact_lists_update_request a p None)
   \<and> ''limit'' \<notin> request_keys (contacts_list_request None n p q)
   \<and> ''offset'' \<notin> request_keys (contacts_list_request m None p q)
   \<and> ''search'' \<notin> request_keys (contacts_list_request m n None q)
   \<and> ''list_id'' \<notin> request_keys (contacts_list_request m n p None)
   \<and> ''name'' \<notin> request_keys (contacts_create_request a None q md)
   \<and> ''email'' \<notin> request_keys (contacts_create_request a p None md)
   \<and> ''metadata'' \<notin> request_keys (contacts_create_request a p q None)
   \<and> ''name'' \<notin> request_keys (contacts_update_request a None q md)
   \<and> ''email'' \<notin> request_keys (contacts_update_request a p None md)
   \<and> ''metadata'' \<notin> request_keys (contacts_update_request a p q None)
   \<and> ''listId'' \<notin> request_keys (contacts_import_contacts_request dump cs None q)
   \<and> ''optedInAt'' \<notin> request_keys (contacts_import_contacts_request dump cs p None)
   \<and> ''template_id'' \<notin> request_keys (verify_send_request a None q r m n)
   \<and> ''profile_id'' \<notin> request_keys (verify_send_request a p None r m n)
   \<and> ''app_name'' \<notin> request_keys (verify_send_request a p q None m n)
   \<and> ''timeout_secs'' \<notin> request_keys (verify_send_request a p q r None n)
   \<and> ''code_length'' \<notin> request_keys (verify_send_request a p q r m None)
   \<and> ''limit'' \<notin> request_keys (verify_list_request None p)
   \<and> ''status'' \<notin> request_keys (verify_list_request m None)
   \<and> req_json (campaigns_create_request ''Welcome'' ''Hello {{name}}!'' [''lst_1''] None) =
     Some [(''name'', JString ''Welcome''),
        (''text'', JString ''Hello {{name}}!''),
        (''contactListIds'', JArray [JString ''lst_1''])]
   \<and> ''templateId'' \<notin> request_keys (async_campaigns_create_request a b xs None)
   \<and> ''limit'' \<notin> request_keys (async_campaigns_list_request None n p)
   \<and> ''offset'' \<notin> request_keys (async_campaigns_list_request m None p)
   \<and> ''status'' \<notin> request_keys (async_campaigns_list_request m n None)
   \<and> ''name'' \<notin> request_keys (async_campaigns_update_request a None q r ys)
   \<and> ''text'' \<notin> request_keys (async_campaigns_update_request a p None r ys)
   \<and> ''templateId'' \<notin> request_keys (async_campaigns_update_request a p q None ys)
   \<and> ''contactListIds'' \<notin> request_keys (async_campaigns_update_request a p q r None)
   \<and> ''timezone'' \<notin> request_keys (async_campaigns_schedule_request a b None)
   \<and> ''limit'' \<notin> request_keys (async_contact_lists_get_request a None n)
   \<and> ''offset'' \<notin> request_keys (async_contact_lists_get_request a m None)
   \<and> ''description'' \<notin> request_keys (async_contact_lists_create_request a None)
   \<and> ''name'' \<notin> request_keys (async_contact_lists_update_request a None q)
   \<and> ''description'' \<notin> request_keys (async_contact_lists_update_request a p None)
   \<and> ''limit'' \<notin> request_keys (async_contacts_list_request None n p q)
   \<and> ''offset'' \<notin> request_keys (async_contacts_list_request m None p q)
   \<and> ''search'' \<notin> request_keys (async_contacts_list_request m n None q)
   \<and> ''list_id'' \<notin> request_keys (async_contacts_list_request m n p None)
   \<and> ''name'' \<notin> request_keys (async_contacts_create_request a None q md)
   \<and> ''email'' \<notin> request_keys (async_contacts_create_request a p None md)
   \<and> ''metadata'' \<notin> request_keys (async_contacts_create_request a p q None)
   \<and> ''name'' \<notin> request_keys (async_contacts_update_request a None q md)
   \<and> ''email'' \<notin> request_keys (async_contacts_update_request a p None md)
   \<and> ''metadata'' \<notin> request_keys (async_contacts_update_request a p q None)
   \<and> ''listId'' \<notin> request_keys (async_contacts_import_contacts_request dump cs None q)
   \<and> ''optedInAt'' \<notin> request_keys (async_contacts_import_contacts_request dump cs p None)
   \<and> ''template_id'' \<notin> request_keys (async_verify_send_request a None q r m n)
   \<and> ''profile_id'' \<notin> request_keys (async_verify_send_request a p None r m n)
   \<and> ''app_name'' \<notin> request_keys (async_verify_send_request a p q None m n)
   \<and> ''timeout_secs'' \<notin> request_keys (async_verify_send_request a p q r None n)
   \<and> ''code_length'' \<notin> request_keys (async_verify_send_request a p q r m None)
   \<and> ''limit'' \<notin> request_keys (async_verify_list_request None p)
   \<and> ''status'' \<notin> request_keys (async_verify_list_request m None)
   \<and> req_json (async_campaigns_create_request ''Welcome'' ''Hello {{name}}!'' [''lst_1''] None) =
     Some [(''name'', JString ''Welcome''),
        (''text'', JString ''Hello {{name}}!''),
        (''contactListIds'', JArray [JString ''lst_1''])]"
  by (intro conjI;
      simp add: request_keys_def Let_def keys_set_if_truthy keys_set_if_not_none keys_or_none
        of_strs_def request_defs async_request_defs)

text \<open>
  Claim C9. Create-style methods test truthiness and update-style methods test
  \<open>is not None\<close>: an empty string (or an empty metadata mapping) passed to a create method
  is left out of the body, while the same value passed to the matching update method is
  sent. In particular \<open>ContactsResource.create(phone_number, name="")\<close> has no \<open>name\<close>
  key and \<open>ContactsResource.update(contact_id, name="")\<close> sends \<open>name\<close> as the empty
  string.
\<close>

theorem create_drops_empty_update_keeps_it:
  "''name'' \<notin> request_keys (contacts_create_request a (Some []) q md)
   \<and> (\<exists>body. req_json (contacts_update_request a (Some []) q md) = Some body
          \<and> map_of body ''name'' = Some (JString []))
   \<and> ''email'' \<notin> request_keys (contacts_create_request a p (Some []) md)
   \<and> (\<exists>body. req_json (contacts_update_request a p (Some []) md) = Some body
          \<and> map_of body ''email'' = Some (JString []))
   \<and> ''metadata'' \<notin> request_keys (contacts_create_request a p q (Some []))
   \<and> (\<exists>body. req_json (contacts_update_request a p q (Some [])) = Some body
          \<and> map_of body ''metadata'' = Some (JObject []))
   \<and> ''description'' \<notin> request_keys (contact_lists_create_request a (Some []))
   \<and> (\<exists>body. req_json (contact_lists_update_request a p (Some [])) = Some body
          \<and> map_of body ''description'' = Some (JString []))
   \<and> ''templateId'' \<notin> request_keys (campaigns_create_request a b xs (Some []))
   \<and> (\<exists>body. req_json (campaigns_update_request a p q (Some []) ys) = Some body
          \<and> map_of body ''templateId'' = Some (JString []))"
  by (intro conjI;
      simp add: request_keys_def Let_def keys_set_if_truthy keys_set_if_not_none
        map_of_set_if_not_none of_str_def of_dict_opt_def
        contacts_create_request_def contacts_update_request_def
        contact_lists_create_request_def contact_lists_update_request_def
        campaigns_create_request_def campaigns_update_request_def)

section \<open>Media upload\<close>

text \<open>
  Claim C7. The multipart request built by the media upload, synchronous or asynchronous,
  has exactly one file part; the part is named \<open>file\<close> and carries the file and the content
  type the caller passed (with the file's name, or \<open>upload\<close> when it has none).
\<close>

theorem upload_has_one_file_part:
  "mp_files (media_upload_request api_key user_agent file content_type) =
     [(''file'', (case io_name file of None \<Rightarrow> ''upload'' | Some n \<Rightarrow> n, file, content_type))]
   \<and> mp_files (async_media_upload_request api_key user_agent file content_type) =
     [(''file'', (case io_name file of None \<Rightarrow> ''upload'' | Some n \<Rightarrow> n, file, content_type))]"
  by (simp add: media_upload_request_def async_media_upload_request_def)

section \<open>Facts about the error monad and the Python operations\<close>

lemma err_bind_simps [simp]:
  "err_bind (Inr x) f = f x" "err_bind (Inl e) f = Inl e"
  by (simp_all add: err_bind_def)

lemma err_bind_eq_Inr: "(err_bind m f = Inr y) = (\<exists>x. m = Inr x \<and> f x = Inr y)"
  by (cases m) simp_all

lemma err_bind_never:
  "m \<noteq> Inl E \<Longrightarrow> (\<And>x. f x \<noteq> Inl E) \<Longrightarrow> err_bind m f \<noteq> Inl E"
  by (cases m) simp_all

lemma py_get_obj:
  "py_get (JObject kvs) k = Inr (case map_of kvs k of None \<Rightarrow> JNull | Some v \<Rightarrow> v)"
  by (simp add: py_get_def)

lemma comprehension_length: "comprehension f xs = Inr ys \<Longrightarrow> length ys = length xs"
  by (induction xs arbitrary: ys) (auto simp: err_bind_eq_Inr)

lemma comprehension_never:
  "(\<And>x. f x \<noteq> Inl E) \<Longrightarrow> comprehension f xs \<noteq> Inl E"
  by (induction xs) (simp_all add: err_bind_never)

text \<open>No Python operation on a response raises the SDK's own error.\<close>

lemma py_never [simp]:
  "py_getitem d k \<noteq> Inl (SendlyError m c s)"
  "py_get_default d k v \<noteq> Inl (SendlyError m c s)"
  "py_get d k \<noteq> Inl (SendlyError m c s)"
  "py_iter d \<noteq> Inl (SendlyError m c s)"
  "py_contains k d \<noteq> Inl (SendlyError m c s)"
  by (cases d; simp add: py_get_def split: option.splits)+

lemma transform_campaign_never: "transform_campaign data \<noteq> Inl (SendlyError m c s)"
  unfolding transform_campaign_def by (intro err_bind_never; simp)

lemma campaigns_list_response_never:
  "campaigns_list_response data \<noteq> Inl (SendlyError m c s)"
  unfolding campaigns_list_response_def
  by (intro err_bind_never comprehension_never transform_campaign_never; simp)

lemma campaigns_preview_response_never:
  "campaigns_preview_response data \<noteq> Inl (SendlyError m c s)"
  unfolding campaigns_preview_response_def by (intro err_bind_never; simp)

lemma transform_list_member_never: "transform_list_member data \<noteq> Inl (SendlyError m c s)"
  unfolding transform_list_member_def by (intro err_bind_never; simp)

lemma transform_list_never: "transform_list data \<noteq> Inl (SendlyError m c s)"
  unfolding transform_list_def
  by (intro err_bind_never;
      (simp; intro impI err_bind_never comprehension_never transform_list_member_never; simp)?)

lemma contact_lists_list_response_never:
  "contact_lists_list_response data \<noteq> Inl (SendlyError m c s)"
  unfolding contact_lists_list_response_def
  by (intro err_bind_never comprehension_never transform_list_never; simp)

lemma contact_lists_add_contacts_response_never:
  "contact_lists_add_contacts_response data \<noteq> Inl (SendlyError m c s)"
  unfolding contact_lists_add_contacts_response_def by (intro err_bind_never; simp)

lemma transform_contact_list_ref_never:
  "transform_contact_list_ref data \<noteq> Inl (SendlyError m c s)"
  unfolding transform_contact_list_ref_def by (intro err_bind_never; simp)

lemma transform_contact_never: "transform_contact data \<noteq> Inl (SendlyError m c s)"
  unfolding transform_contact_def
  by (intro err_bind_never;
      (simp; intro impI err_bind_never comprehension_never transform_contact_list_ref_never;
       simp)?)

lemma contacts_list_response_never:
  "contacts_list_response data \<noteq> Inl (SendlyError m c s)"
  unfolding contacts_list_response_def
  by (intro err_bind_never comprehension_never transform_contact_never; simp)

lemma contacts_import_contacts_response_never:
  "contacts_import_contacts_response data \<noteq> Inl (SendlyError m c s)"
  unfolding contacts_import_contacts_response_def by (intro err_bind_never; simp)

lemma verify_send_response_never: "verify_send_response data \<noteq> Inl (SendlyError m c s)"
  unfolding verify_send_response_def by (intro err_bind_never; simp)

lemma verify_check_response_never: "verify_check_response data \<noteq> Inl (SendlyError m c s)"
  unfolding verify_check_response_def by (intro err_bind_never; simp)

lemma verify_get_response_never: "verify_get_response data \<noteq> Inl (SendlyError m c s)"
  unfolding verify_get_response_def by (intro err_bind_never; simp)

lemma verify_list_item_never: "verify_list_item data \<noteq> Inl (SendlyError m c s)"
  unfolding verify_list_item_def by (intro err_bind_never; simp)

lemma verify_list_response_never: "verify_list_response data \<noteq> Inl (SendlyError m c s)"
  unfolding verify_list_response_def
  by (intro err_bind_never comprehension_never verify_list_item_never; simp)

lemmas reshape_never =
  transform_campaign_never campaigns_list_response_never campaigns_preview_response_never
  transform_list_never contact_lists_list_response_never
  contact_lists_add_contacts_response_never transform_contact_never
  contacts_list_response_never contacts_import_contacts_response_never
  verify_send_response_never verify_check_response_never verify_get_response_never
  verify_list_response_never

section \<open>Reshaping failures\<close>

text \<open>
  Claim C2, as the code has it. The claim that every facade method turns a reshaping
  failure into a validation error does not hold: \<open>CampaignsResource.get\<close> on a response
  without \<open>id\<close> ends with the raw \<open>KeyError\<close>.
\<close>

theorem campaign_reshape_raises_raw_key_error:
  "campaigns_get (\<lambda>req. Inr (JObject [(''name'', JString ''Welcome'')])) ''cmp_1'' =
     Inl (KeyError ''id'')"
  by (simp add: campaigns_get_def transform_campaign_def)

text \<open>
  Claim C2, amended. Only the media upload wraps: when the \<open>MediaFile\<close> constructor rejects
  the response mapping with a pydantic validation error of text \<open>e\<close>, \<open>upload\<close> (synchronous
  or asynchronous) raises the SDK's error with message
  \<open>Invalid API response format: \<close> followed by \<open>e\<close>, code \<open>invalid_response\<close> and status
  200. The reshaping functions of the campaign, contact, contact-list and verify facades
  never raise the SDK's error, whatever the response; in particular a campaign response
  mapping without the key \<open>id\<close> raises \<open>KeyError('id')\<close> as it is.
\<close>

theorem only_media_upload_wraps_reshape_failure:
  "(post (media_upload_request api_key user_agent fileobj content_type) = Inr response
      \<and> parse_response response = Inr (JObject kvs)
      \<and> MediaFile kvs = Inl (PydanticValidationError e) \<longrightarrow>
      fst (media_upload post update_rate_limit_info parse_response MediaFile
             api_key user_agent rate_limit fileobj content_type) =
        Inl (SendlyError (''Invalid API response format: '' @ e) ''invalid_response'' 200)
      \<and> fst (async_media_upload post update_rate_limit_info parse_response MediaFile
             api_key user_agent rate_limit fileobj content_type) =
        Inl (SendlyError (''Invalid API response format: '' @ e) ''invalid_response'' 200))
   \<and> (map_of kvs' ''id'' = None \<longrightarrow> transform_campaign (JObject kvs') = Inl (KeyError ''id''))
   \<and> transform_campaign data \<noteq> Inl (SendlyError m c s)
   \<and> campaigns_list_response data \<noteq> Inl (SendlyError m c s)
   \<and> campaigns_preview_response data \<noteq> Inl (SendlyError m c s)
   \<and> transform_list data \<noteq> Inl (SendlyError m c s)
   \<and> contact_lists_list_response data \<noteq> Inl (SendlyError m c s)
   \<and> contact_lists_add_contacts_response data \<noteq> Inl (SendlyError m c s)
   \<and> transform_contact data \<noteq> Inl (SendlyError m c s)
   \<and> contacts_list_response data \<noteq> Inl (SendlyError m c s)
   \<and> contacts_import_contacts_response data \<noteq> Inl (SendlyError m c s)
   \<and> verify_send_response data \<noteq> Inl (SendlyError m c s)
   \<and> verify_check_response data \<noteq> Inl (SendlyError m c s)
   \<and> verify_get_response data \<noteq> Inl (SendlyError m c s)
   \<and> verify_list_response data \<noteq> Inl (SendlyError m c s)"
proof -
  have media:
    "post (media_upload_request api_key user_agent fileobj content_type) = Inr response
      \<and> parse_response response = Inr (JObject kvs)
      \<and> MediaFile kvs = Inl (PydanticValidationError e) \<longrightarrow>
      fst (media_upload post update_rate_limit_info parse_response MediaFile
             api_key user_agent rate_limit fileobj content_type) =
        Inl (SendlyError (''Invalid API response format: '' @ e) ''invalid_response'' 200)
      \<and> fst (async_media_upload post update_rate_limit_info parse_response MediaFile
             api_key user_agent rate_limit fileobj content_type) =
        Inl (SendlyError (''Invalid API response format: '' @ e) ''invalid_response'' 200)"
    by (simp add: media_upload_def async_media_upload_def media_upload_response_def
          async_media_upload_response_def media_upload_request_def
          async_media_upload_request_def Let_def)
  have key: "map_of kvs' ''id'' = None \<longrightarrow> transform_campaign (JObject kvs') = Inl (KeyError ''id'')"
    by (simp add: transform_campaign_def)
  show ?thesis
    using media key by (simp add: reshape_never)
qed

theorem only_media_upload_wraps_reshape_failure_witness:
  "fst (media_upload
          (\<lambda>req. Inr \<lparr>resp_status_code = 200, resp_headers = [], resp_body = ''{}''\<rparr>)
          (\<lambda>headers rl. rl)
          (\<lambda>resp. Inr (JObject []))
          (\<lambda>kvs. case map_of kvs ''url'' of
                    None \<Rightarrow> Inl (PydanticValidationError ''url: Field required'')
                  | Some u \<Rightarrow> Inr u)
          ''sk_test'' None () \<lparr>io_name = None, io_content = ''abc''\<rparr> ''image/png'') =
     Inl (SendlyError ''Invalid API response format: url: Field required''
            ''invalid_response'' 200)
   \<and> transform_campaign (JObject []) = Inl (KeyError ''id'')"
proof -
  let ?post = "\<lambda>req::multipart_request.
    (Inr \<lparr>resp_status_code = 200, resp_headers = [], resp_body = ''{}''\<rparr> :: error + http_response)"
  let ?upd = "\<lambda>(headers::(string \<times> string) list) (rl::unit). rl"
  let ?parse = "\<lambda>resp::http_response. (Inr (JObject []) :: error + json)"
  let ?MF = "\<lambda>kvs::dict. case map_of kvs ''url'' of
                    None \<Rightarrow> (Inl (PydanticValidationError ''url: Field required'') :: error + json)
                  | Some u \<Rightarrow> Inr u"
  let ?file = "\<lparr>io_name = None, io_content = ''abc''\<rparr>"
  note T = only_media_upload_wraps_reshape_failure
    [where post = ?post and update_rate_limit_info = ?upd and parse_response = ?parse
       and MediaFile = ?MF and api_key = "''sk_test''" and user_agent = None
       and rate_limit = "()" and fileobj = ?file and content_type = "''image/png''"
       and response = "\<lparr>resp_status_code = 200, resp_headers = [], resp_body = ''{}''\<rparr>"
       and kvs = "[]" and e = "''url: Field required''" and kvs' = "[]"]
  from T show ?thesis by simp
qed

section \<open>List results\<close>

text \<open>
  Claim C1, as the code has it. The claim that every list method passes \<open>total\<close>, \<open>limit\<close>
  and \<open>offset\<close> through fails for \<open>ContactListsResource.list\<close>: its result is the items
  alone, the same whether the response carries pagination metadata or not.
\<close>

theorem contact_lists_list_drops_pagination:
  "contact_lists_list
     (\<lambda>req. Inr (JObject [(''lists'', JArray []), (''total'', JInt 7), (''limit'', JInt 50),
                          (''offset'', JInt 0)])) =
     Inr \<lparr>ContactListsResponse_lists = []\<rparr>
   \<and> contact_lists_list (\<lambda>req. Inr (JObject [(''lists'', JArray [])])) =
     Inr \<lparr>ContactListsResponse_lists = []\<rparr>"
  by (simp add: contact_lists_list_def contact_lists_list_response_def)

text \<open>
  Claim C1, amended. Whenever a list method returns, the number of items in its result is
  the length of the source array. \<open>CampaignsResource.list\<close> and \<open>ContactsResource.list\<close>
  bundle the items with \<open>total\<close>, \<open>limit\<close> and \<open>offset\<close>, each the value of that key in
  the response; \<open>VerifyResource.list\<close> bundles them with the response's \<open>pagination\<close>
  value; \<open>ContactListsResource.list\<close> returns the items with no pagination metadata.
\<close>

theorem list_results_keep_items_and_metadata:
  "(campaigns_list_response (JObject kvs_a) = Inr r_a
      \<and> map_of kvs_a ''campaigns'' = Some (JArray xs_a) \<longrightarrow>
      length (CampaignListResponse_campaigns r_a) = length xs_a
      \<and> map_of kvs_a ''total'' = Some (CampaignListResponse_total r_a)
      \<and> map_of kvs_a ''limit'' = Some (CampaignListResponse_limit r_a)
      \<and> map_of kvs_a ''offset'' = Some (CampaignListResponse_offset r_a))
   \<and> (contacts_list_response (JObject kvs_b) = Inr r_b
      \<and> map_of kvs_b ''contacts'' = Some (JArray xs_b) \<longrightarrow>
      length (ContactListResponse_contacts r_b) = length xs_b
      \<and> map_of kvs_b ''total'' = Some (ContactListResponse_total r_b)
      \<and> map_of kvs_b ''limit'' = Some (ContactListResponse_limit r_b)
      \<and> map_of kvs_b ''offset'' = Some (ContactListResponse_offset r_b))
   \<and> (verify_list_response (JObject kvs_c) = Inr r_c
      \<and> map_of kvs_c ''verifications'' = Some (JArray xs_c) \<longrightarrow>
      length (VerificationListResponse_verifications r_c) = length xs_c
      \<and> map_of kvs_c ''pagination'' = Some (VerificationListResponse_pagination r_c))
   \<and> (contact_lists_list_response (JObject kvs_d) = Inr r_d
      \<and> map_of kvs_d ''lists'' = Some (JArray xs_d) \<longrightarrow>
      length (ContactListsResponse_lists r_d) = length xs_d)"
  by (intro conjI impI;
      auto simp: campaigns_list_response_def contacts_list_response_def
        verify_list_response_def contact_lists_list_response_def err_bind_eq_Inr
        split: option.splits dest: comprehension_length)

theorem list_results_keep_items_and_metadata_witness:
  "(\<exists>r. campaigns_list_response
          (JObject [(''campaigns'',
                     JArray [JObject [(''id'', JString ''cmp_1''), (''name'', JString ''Welcome''),
                                      (''text'', JString ''Hello''), (''status'', JString ''draft''),
                                      (''created_at'', JString ''2024-01-01''),
                                      (''updated_at'', JString ''2024-01-02'')]]),
                    (''total'', JInt 1), (''limit'', JInt 50), (''offset'', JInt 0)]) = Inr r
        \<and> length (CampaignListResponse_campaigns r) = 1
        \<and> CampaignListResponse_total r = JInt 1
        \<and> CampaignListResponse_limit r = JInt 50
        \<and> CampaignListResponse_offset r = JInt 0)
   \<and> (\<exists>r. contacts_list_response
          (JObject [(''contacts'',
                     JArray [JObject [(''id'', JString ''ct_1''),
                                      (''phone_number'', JString ''+15551234567''),
                                      (''created_at'', JString ''2024-01-01'')]]),
                    (''total'', JInt 1), (''limit'', JInt 50), (''offset'', JInt 0)]) = Inr r
        \<and> length (ContactListResponse_contacts r) = 1
        \<and> ContactListResponse_total r = JInt 1
        \<and> ContactListResponse_limit r = JInt 50
        \<and> ContactListResponse_offset r = JInt 0)
   \<and> (\<exists>r. verify_list_response
          (JObject [(''verifications'', JArray []),
                    (''pagination'', JObject [(''limit'', JInt 20), (''has_more'', JBool False)])])
          = Inr r
        \<and> length (VerificationListResponse_verifications r) = 0
        \<and> VerificationListResponse_pagination r =
            JObject [(''limit'', JInt 20), (''has_more'', JBool False)])
   \<and> (\<exists>r. contact_lists_list_response
          (JObject [(''lists'',
                     JArray [JObject [(''id'', JString ''lst_1''), (''name'', JString ''News''),
                                      (''created_at'', JString ''2024-01-01'')]])]) = Inr r
        \<and> length (ContactListsResponse_lists r) = 1)"
proof -
  let ?xs1 = "[JObject [(''id'', JString ''cmp_1''), (''name'', JString ''Welcome''),
                        (''text'', JString ''Hello''), (''status'', JString ''draft''),
                        (''created_at'', JString ''2024-01-01''),
                        (''updated_at'', JString ''2024-01-02'')]]"
  let ?K1 = "[(''campaigns'', JArray ?xs1),
              (''total'', JInt 1), (''limit'', JInt 50), (''offset'', JInt 0)]"
  let ?xs2 = "[JObject [(''id'', JString ''ct_1''), (''phone_number'', JString ''+15551234567''),
                        (''created_at'', JString ''2024-01-01'')]]"
  let ?K2 = "[(''contacts'', JArray ?xs2),
              (''total'', JInt 1), (''limit'', JInt 50), (''offset'', JInt 0)]"
  let ?K3 = "[(''verifications'', JArray []),
              (''pagination'', JObject [(''limit'', JInt 20), (''has_more'', JBool False)])]"
  let ?xs4 = "[JObject [(''id'', JString ''lst_1''), (''name'', JString ''News''),
                        (''created_at'', JString ''2024-01-01'')]]"
  let ?K4 = "[(''lists'', JArray ?xs4)]"
  note T = list_results_keep_items_and_metadata
    [where kvs_a = ?K1 and xs_a = ?xs1 and kvs_b = ?K2 and xs_b = ?xs2
       and kvs_c = ?K3 and xs_c = "[]" and kvs_d = ?K4 and xs_d = ?xs4]
  have "\<exists>r. campaigns_list_response (JObject ?K1) = Inr r"
    by (simp add: campaigns_list_response_def transform_campaign_def py_get_def)
  then obtain r_a where r_a: "campaigns_list_response (JObject ?K1) = Inr r_a" ..
  have "\<exists>r. contacts_list_response (JObject ?K2) = Inr r"
    by (simp add: contacts_list_response_def transform_contact_def py_get_def)
  then obtain r_b where r_b: "contacts_list_response (JObject ?K2) = Inr r_b" ..
  have "\<exists>r. verify_list_response (JObject ?K3) = Inr r"
    by (simp add: verify_list_response_def)
  then obtain r_c where r_c: "verify_list_response (JObject ?K3) = Inr r_c" ..
  have "\<exists>r. contact_lists_list_response (JObject ?K4) = Inr r"
    by (simp add: contact_lists_list_response_def transform_list_def py_get_def)
  then obtain r_d where r_d: "contact_lists_list_response (JObject ?K4) = Inr r_d" ..
  from T [where r_a = r_a and r_b = r_b and r_c = r_c and r_d = r_d] r_a r_b r_c r_d
  show ?thesis by auto
qed

section \<open>Absent and empty values in responses\<close>

text \<open>
  Claim C8. When \<open>VerifyResource.check(verification_id, code)\<close> receives a response
  mapping without the key \<open>remaining_attempts\<close> and returns a typed result, the result's
  \<open>remaining_attempts\<close> is \<open>None\<close>, not zero.
\<close>

theorem check_remaining_attempts_absent_is_none:
  assumes "http (verify_check_request verification_id code) = Inr (JObject kvs)"
      and "map_of kvs ''remaining_attempts'' = None"
      and "verify_check http verification_id code = Inr r"
  shows "CheckVerificationResponse_remaining_attempts r = JNull
       \<and> CheckVerificationResponse_remaining_attempts r \<noteq> JInt 0"
  using assms
  by (auto simp: verify_check_def verify_check_response_def err_bind_eq_Inr py_get_obj)

theorem check_remaining_attempts_absent_is_none_witness:
  "\<exists>r. verify_check
          (\<lambda>req. Inr (JObject [(''id'', JString ''ver_1''), (''status'', JString ''pending''),
                               (''phone'', JString ''+15551234567'')]))
          ''ver_1'' ''123456'' = Inr r
       \<and> CheckVerificationResponse_remaining_attempts r = JNull
       \<and> CheckVerificationResponse_remaining_attempts r \<noteq> JInt 0"
proof -
  let ?kvs = "[(''id'', JString ''ver_1''), (''status'', JString ''pending''),
               (''phone'', JString ''+15551234567'')]"
  let ?http = "\<lambda>req::request. (Inr (JObject ?kvs) :: error + json)"
  have "\<exists>r. verify_check ?http ''ver_1'' ''123456'' = Inr r"
    by (simp add: verify_check_def verify_check_response_def py_get_def)
  then obtain r where r: "verify_check ?http ''ver_1'' ''123456'' = Inr r" ..
  have absent: "map_of ?kvs ''remaining_attempts'' = None" by simp
  from check_remaining_attempts_absent_is_none
         [of ?http "''ver_1''" "''123456''" ?kvs r, OF refl absent r] r
  show ?thesis by blast
qed

text \<open>
  Claim C10. A contact response whose \<open>lists\<close> key is bound to an empty array is reshaped
  exactly as the same response without the key, and the \<open>lists\<close> field of the result is
  \<open>None\<close>; likewise a contact-list response whose \<open>contacts\<close> key is bound to an empty
  array. The typed result does not tell an empty collection from a missing one.
\<close>

theorem empty_collection_reads_as_missing:
  "(map_of kvs_a ''lists'' = Some (JArray []) \<longrightarrow>
      transform_contact (JObject kvs_a) = transform_contact (JObject (AList.delete ''lists'' kvs_a))
      \<and> (\<forall>c. transform_contact (JObject kvs_a) = Inr c \<longrightarrow> Contact_lists c = JNull))
   \<and> (map_of kvs_b ''contacts'' = Some (JArray []) \<longrightarrow>
      transform_list (JObject kvs_b) = transform_list (JObject (AList.delete ''contacts'' kvs_b))
      \<and> (\<forall>c. transform_list (JObject kvs_b) = Inr c \<longrightarrow> ContactList_contacts c = JNull))"
  by (auto simp: transform_contact_def transform_list_def py_get_def delete_conv' err_bind_eq_Inr)

theorem empty_collection_reads_as_missing_witness:
  "transform_contact
     (JObject [(''id'', JString ''ct_1''), (''phone_number'', JString ''+15551234567''),
               (''created_at'', JString ''2024-01-01''), (''lists'', JArray [])]) =
   transform_contact
     (JObject [(''id'', JString ''ct_1''), (''phone_number'', JString ''+15551234567''),
               (''created_at'', JString ''2024-01-01'')])
   \<and> (\<exists>c. transform_contact
          (JObject [(''id'', JString ''ct_1''), (''phone_number'', JString ''+15551234567''),
                    (''created_at'', JString ''2024-01-01''), (''lists'', JArray [])]) = Inr c
        \<and> Contact_lists c = JNull)
   \<and> transform_list
     (JObject [(''id'', JString ''lst_1''), (''name'', JString ''News''),
               (''created_at'', JString ''2024-01-01''), (''contacts'', JArray [])]) =
   transform_list
     (JObject [(''id'', JString ''lst_1''), (''name'', JString ''News''),
               (''created_at'', JString ''2024-01-01'')])
   \<and> (\<exists>c. transform_list
          (JObject [(''id'', JString ''lst_1''), (''name'', JString ''News''),
                    (''created_at'', JString ''2024-01-01''), (''contacts'', JArray [])]) = Inr c
        \<and> ContactList_contacts c = JNull)"
proof -
  let ?K1 = "[(''id'', JString ''ct_1''), (''phone_number'', JString ''+15551234567''),
              (''created_at'', JString ''2024-01-01''), (''lists'', JArray [])]"
  let ?K2 = "[(''id'', JString ''lst_1''), (''name'', JString ''News''),
              (''created_at'', JString ''2024-01-01''), (''contacts'', JArray [])]"
  have "\<exists>c. transform_contact (JObject ?K1) = Inr c"
    by (simp add: transform_contact_def py_get_def)
  then obtain c1 where c1: "transform_contact (JObject ?K1) = Inr c1" ..
  have "\<exists>c. transform_list (JObject ?K2) = Inr c"
    by (simp add: transform_list_def py_get_def)
  then obtain c2 where c2: "transform_list (JObject ?K2) = Inr c2" ..
  have d1: "AList.delete ''lists'' ?K1 =
      [(''id'', JString ''ct_1''), (''phone_number'', JString ''+15551234567''),
       (''created_at'', JString ''2024-01-01'')]"
    by simp
  have d2: "AList.delete ''contacts'' ?K2 =
      [(''id'', JString ''lst_1''), (''name'', JString ''News''),
       (''created_at'', JString ''2024-01-01'')]"
    by simp
  have m1: "map_of ?K1 ''lists'' = Some (JArray [])" by simp
  have m2: "map_of ?K2 ''contacts'' = Some (JArray [])" by simp
  note T = empty_collection_reads_as_missing [where kvs_a = ?K1 and kvs_b = ?K2]
  from T m1 d1 c1 have p1:
    "transform_contact (JObject ?K1) =
       transform_contact (JObject [(''id'', JString ''ct_1''),
         (''phone_number'', JString ''+15551234567''), (''created_at'', JString ''2024-01-01'')])
     \<and> Contact_lists c1 = JNull"
    by metis
  from T m2 d2 c2 have p2:
    "transform_list (JObject ?K2) =
       transform_list (JObject [(''id'', JString ''lst_1''), (''name'', JString ''News''),
         (''created_at'', JString ''2024-01-01'')])
     \<and> ContactList_contacts c2 = JNull"
    by metis
  from p1 p2 c1 c2 show ?thesis by blast
qed

section \<open>The asynchronous classes against the synchronous ones\<close>

text \<open>Each definition taken from an \<open>Async...Resource\<close> class is the same function as the one
  taken from its synchronous class. The lemmas follow the order of the definitions, so that
  each can use those before it.\<close>

lemma async_transform_campaign_eq: "async_transform_campaign = transform_campaign"
  by ((intro ext)?,
      unfold async_transform_campaign_def transform_campaign_def,
      rule refl)

lemma async_campaigns_create_request_eq: "async_campaigns_create_request = campaigns_create_request"
  by ((intro ext)?,
      unfold async_campaigns_create_request_def campaigns_create_request_def,
      rule refl)

lemma async_campaigns_create_eq: "async_campaigns_create = campaigns_create"
  by ((intro ext)?,
      unfold async_campaigns_create_def campaigns_create_def async_transform_campaign_eq
        async_campaigns_create_request_eq,
      rule refl)

lemma async_campaigns_list_request_eq: "async_campaigns_list_request = campaigns_list_request"
  by ((intro ext)?,
      unfold async_campaigns_list_request_def campaigns_list_request_def,
      rule refl)

lemma async_campaigns_list_response_eq: "async_campaigns_list_response = campaigns_list_response"
  by ((intro ext)?,
      unfold async_campaigns_list_response_def campaigns_list_response_def
        async_transform_campaign_eq,
      rule refl)

lemma async_campaigns_list_eq: "async_campaigns_list = campaigns_list"
  by ((intro ext)?,
      unfold async_campaigns_list_def campaigns_list_def async_campaigns_list_request_eq
        async_campaigns_list_response_eq,
      rule refl)

lemma async_campaigns_get_request_eq: "async_campaigns_get_request = campaigns_get_request"
  by ((intro ext)?,
      unfold async_campaigns_get_request_def campaigns_get_request_def,
      rule refl)

lemma async_campaigns_get_eq: "async_campaigns_get = campaigns_get"
  by ((intro ext)?,
      unfold async_campaigns_get_def campaigns_get_def async_transform_campaign_eq
        async_campaigns_get_request_eq,
      rule refl)

lemma async_campaigns_update_request_eq: "async_campaigns_update_request = campaigns_update_request"
  by ((intro ext)?,
      unfold async_campaigns_update_request_def campaigns_update_request_def,
      rule refl)

lemma async_campaigns_update_eq: "async_campaigns_update = campaigns_update"
  by ((intro ext)?,
      unfold async_campaigns_update_def campaigns_update_def async_transform_campaign_eq
        async_campaigns_update_request_eq,
      rule refl)

lemma async_campaigns_delete_request_eq: "async_campaigns_delete_request = campaigns_delete_request"
  by ((intro ext)?,
      unfold async_campaigns_delete_request_def campaigns_delete_request_def,
      rule refl)

lemma async_campaigns_delete_eq: "async_campaigns_delete = campaigns_delete"
  by ((intro ext)?,
      unfold async_campaigns_delete_def campaigns_delete_def
        async_campaigns_delete_request_eq,
      rule refl)

lemma async_campaigns_preview_request_eq: "async_campaigns_preview_request = campaigns_preview_request"
  by ((intro ext)?,
      unfold async_campaigns_preview_request_def campaigns_preview_request_def,
      rule refl)

lemma async_campaigns_preview_response_eq:
  "async_campaigns_preview_response = campaigns_preview_response"
  by ((intro ext)?,
      unfold async_campaigns_preview_response_def campaigns_preview_response_def,
      rule refl)

lemma async_campaigns_preview_eq: "async_campaigns_preview = campaigns_preview"
  by ((intro ext)?,
      unfold async_campaigns_preview_def campaigns_preview_def
        async_campaigns_preview_request_eq async_campaigns_preview_response_eq,
      rule refl)

lemma async_campaigns_send_request_eq: "async_campaigns_send_request = campaigns_send_request"
  by ((intro ext)?,
      unfold async_campaigns_send_request_def campaigns_send_request_def,
      rule refl)

lemma async_campaigns_send_eq: "async_campaigns_send = campaigns_send"
  by ((intro ext)?,
      unfold async_campaigns_send_def campaigns_send_def async_transform_campaign_eq
        async_campaigns_send_request_eq,
      rule refl)

lemma async_campaigns_schedule_request_eq:
  "async_campaigns_schedule_request = campaigns_schedule_request"
  by ((intro ext)?,
      unfold async_campaigns_schedule_request_def campaigns_schedule_request_def,
      rule refl)

lemma async_campaigns_schedule_eq: "async_campaigns_schedule = campaigns_schedule"
  by ((intro ext)?,
      unfold async_campaigns_schedule_def campaigns_schedule_def async_transform_campaign_eq
        async_campaigns_schedule_request_eq,
      rule refl)

lemma async_campaigns_cancel_request_eq: "async_campaigns_cancel_request = campaigns_cancel_request"
  by ((intro ext)?,
      unfold async_campaigns_cancel_request_def campaigns_cancel_request_def,
      rule refl)

lemma async_campaigns_cancel_eq: "async_campaigns_cancel = campaigns_cancel"
  by ((intro ext)?,
      unfold async_campaigns_cancel_def campaigns_cancel_def async_transform_campaign_eq
        async_campaigns_cancel_request_eq,
      rule refl)

lemma async_campaigns_clone_request_eq: "async_campaigns_clone_request = campaigns_clone_request"
  by ((intro ext)?,
      unfold async_campaigns_clone_request_def campaigns_clone_request_def,
      rule refl)

lemma async_campaigns_clone_eq: "async_campaigns_clone = campaigns_clone"
  by ((intro ext)?,
      unfold async_campaigns_clone_def campaigns_clone_def async_transform_campaign_eq
        async_campaigns_clone_request_eq,
      rule refl)

lemma async_transform_list_member_eq: "async_transform_list_member = transform_list_member"
  by ((intro ext)?,
      unfold async_transform_list_member_def transform_list_member_def,
      rule refl)

lemma async_transform_list_eq: "async_transform_list = transform_list"
  by ((intro ext)?,
      unfold async_transform_list_def transform_list_def async_transform_list_member_eq,
      rule refl)

lemma async_contact_lists_list_request_eq:
  "async_contact_lists_list_request = contact_lists_list_request"
  by ((intro ext)?,
      unfold async_contact_lists_list_request_def contact_lists_list_request_def,
      rule refl)

lemma async_contact_lists_list_response_eq:
  "async_contact_lists_list_response = contact_lists_list_response"
  by ((intro ext)?,
      unfold async_contact_lists_list_response_def contact_lists_list_response_def
        async_transform_list_eq,
      rule refl)

lemma async_contact_lists_list_eq: "async_contact_lists_list = contact_lists_list"
  by ((intro ext)?,
      unfold async_contact_lists_list_def contact_lists_list_def
        async_contact_lists_list_request_eq async_contact_lists_list_response_eq,
      rule refl)

lemma async_contact_lists_get_request_eq: "async_contact_lists_get_request = contact_lists_get_request"
  by ((intro ext)?,
      unfold async_contact_lists_get_request_def contact_lists_get_request_def,
      rule refl)

lemma async_contact_lists_get_eq: "async_contact_lists_get = contact_lists_get"
  by ((intro ext)?,
      unfold async_contact_lists_get_def contact_lists_get_def async_transform_list_eq
        async_contact_lists_get_request_eq,
      rule refl)

lemma async_contact_lists_create_request_eq:
  "async_contact_lists_create_request = contact_lists_create_request"
  by ((intro ext)?,
      unfold async_contact_lists_create_request_def contact_lists_create_request_def,
      rule refl)

lemma async_contact_lists_create_eq: "async_contact_lists_create = contact_lists_create"
  by ((intro ext)?,
      unfold async_contact_lists_create_def contact_lists_create_def async_transform_list_eq
        async_contact_lists_create_request_eq,
      rule refl)

lemma async_contact_lists_update_request_eq:
  "async_contact_lists_update_request = contact_lists_update_request"
  by ((intro ext)?,
      unfold async_contact_lists_update_request_def contact_lists_update_request_def,
      rule refl)

lemma async_contact_lists_update_eq: "async_contact_lists_update = contact_lists_update"
  by ((intro ext)?,
      unfold async_contact_lists_update_def contact_lists_update_def async_transform_list_eq
        async_contact_lists_update_request_eq,
      rule refl)

lemma async_contact_lists_delete_request_eq:
  "async_contact_lists_delete_request = contact_lists_delete_request"
  by ((intro ext)?,
      unfold async_contact_lists_delete_request_def contact_lists_delete_request_def,
      rule refl)

lemma async_contact_lists_delete_eq: "async_contact_lists_delete = contact_lists_delete"
  by ((intro ext)?,
      unfold async_contact_lists_delete_def contact_lists_delete_def
        async_contact_lists_delete_request_eq,
      rule refl)

lemma async_contact_lists_add_contacts_request_eq:
  "async_contact_lists_add_contacts_request = contact_lists_add_contacts_request"
  by ((intro ext)?,
      unfold async_contact_lists_add_contacts_request_def
        contact_lists_add_contacts_request_def,
      rule refl)

lemma async_contact_lists_add_contacts_response_eq:
  "async_contact_lists_add_contacts_response = contact_lists_add_contacts_response"
  by ((intro ext)?,
      unfold async_contact_lists_add_contacts_response_def
        contact_lists_add_contacts_response_def,
      rule refl)

lemma async_contact_lists_add_contacts_eq:
  "async_contact_lists_add_contacts = contact_lists_add_contacts"
  by ((intro ext)?,
      unfold async_contact_lists_add_contacts_def contact_lists_add_contacts_def
        async_contact_lists_add_contacts_request_eq
        async_contact_lists_add_contacts_response_eq,
      rule refl)

lemma async_contact_lists_remove_contact_request_eq:
  "async_contact_lists_remove_contact_request = contact_lists_remove_contact_request"
  by ((intro ext)?,
      unfold async_contact_lists_remove_contact_request_def
        contact_lists_remove_contact_request_def,
      rule refl)

lemma async_contact_lists_remove_contact_eq:
  "async_contact_lists_remove_contact = contact_lists_remove_contact"
  by ((intro ext)?,
      unfold async_contact_lists_remove_contact_def contact_lists_remove_contact_def
        async_contact_lists_remove_contact_request_eq,
      rule refl)

lemma async_transform_contact_list_ref_eq:
  "async_transform_contact_list_ref = transform_contact_list_ref"
  by ((intro ext)?,
      unfold async_transform_contact_list_ref_def transform_contact_list_ref_def,
      rule refl)

lemma async_transform_contact_eq: "async_transform_contact = transform_contact"
  by ((intro ext)?,
      unfold async_transform_contact_def transform_contact_def
        async_transform_contact_list_ref_eq,
      rule refl)

lemma async_contacts_list_request_eq: "async_contacts_list_request = contacts_list_request"
  by ((intro ext)?,
      unfold async_contacts_list_request_def contacts_list_request_def,
      rule refl)

lemma async_contacts_list_response_eq: "async_contacts_list_response = contacts_list_response"
  by ((intro ext)?,
      unfold async_contacts_list_response_def contacts_list_response_def
        async_transform_contact_eq,
      rule refl)

lemma async_contacts_list_eq: "async_contacts_list = contacts_list"
  by ((intro ext)?,
      unfold async_contacts_list_def contacts_list_def async_contacts_list_request_eq
        async_contacts_list_response_eq,
      rule refl)

lemma async_contacts_get_request_eq: "async_contacts_get_request = contacts_get_request"
  by ((intro ext)?,
      unfold async_contacts_get_request_def contacts_get_request_def,
      rule refl)

lemma async_contacts_get_eq: "async_contacts_get = contacts_get"
  by ((intro ext)?,
      unfold async_contacts_get_def contacts_get_def async_transform_contact_eq
        async_contacts_get_request_eq,
      rule refl)

lemma async_contacts_create_request_eq: "async_contacts_create_request = contacts_create_request"
  by ((intro ext)?,
      unfold async_contacts_create_request_def contacts_create_request_def,
      rule refl)

lemma async_contacts_create_eq: "async_contacts_create = contacts_create"
  by ((intro ext)?,
      unfold async_contacts_create_def contacts_create_def async_transform_contact_eq
        async_contacts_create_request_eq,
      rule refl)

lemma async_contacts_update_request_eq: "async_contacts_update_request = contacts_update_request"
  by ((intro ext)?,
      unfold async_contacts_update_request_def contacts_update_request_def,
      rule refl)

lemma async_contacts_update_eq: "async_contacts_update = contacts_update"
  by ((intro ext)?,
      unfold async_contacts_update_def contacts_update_def async_transform_contact_eq
        async_contacts_update_request_eq,
      rule refl)

lemma async_contacts_delete_request_eq: "async_contacts_delete_request = contacts_delete_request"
  by ((intro ext)?,
      unfold async_contacts_delete_request_def contacts_delete_request_def,
      rule refl)

lemma async_contacts_delete_eq: "async_contacts_delete = contacts_delete"
  by ((intro ext)?,
      unfold async_contacts_delete_def contacts_delete_def async_contacts_delete_request_eq,
      rule refl)

lemma async_contacts_import_contacts_request_eq:
  "async_contacts_import_contacts_request = contacts_import_contacts_request"
  by ((intro ext)?,
      unfold async_contacts_import_contacts_request_def contacts_import_contacts_request_def,
      rule refl)

lemma async_contacts_import_contacts_response_eq:
  "async_contacts_import_contacts_response = contacts_import_contacts_response"
  by ((intro ext)?,
      unfold async_contacts_import_contacts_response_def
        contacts_import_contacts_response_def,
      rule refl)

lemma async_contacts_import_contacts_eq: "async_contacts_import_contacts = contacts_import_contacts"
  by ((intro ext)?,
      unfold async_contacts_import_contacts_def contacts_import_contacts_def
        async_contacts_import_contacts_request_eq async_contacts_import_contacts_response_eq,
      rule refl)

lemma async_verify_send_request_eq: "async_verify_send_request = verify_send_request"
  by ((intro ext)?,
      unfold async_verify_send_request_def verify_send_request_def,
      rule refl)

lemma async_verify_send_response_eq: "async_verify_send_response = verify_send_response"
  by ((intro ext)?,
      unfold async_verify_send_response_def verify_send_response_def,
      rule refl)

lemma async_verify_send_eq: "async_verify_send = verify_send"
  by ((intro ext)?,
      unfold async_verify_send_def verify_send_def async_verify_send_request_eq
        async_verify_send_response_eq,
      rule refl)

lemma async_verify_check_request_eq: "async_verify_check_request = verify_check_request"
  by ((intro ext)?,
      unfold async_verify_check_request_def verify_check_request_def,
      rule refl)

lemma async_verify_check_response_eq: "async_verify_check_response = verify_check_response"
  by ((intro ext)?,
      unfold async_verify_check_response_def verify_check_response_def,
      rule refl)

lemma async_verify_check_eq: "async_verify_check = verify_check"
  by ((intro ext)?,
      unfold async_verify_check_def verify_check_def async_verify_check_request_eq
        async_verify_check_response_eq,
      rule refl)

lemma async_verify_get_request_eq: "async_verify_get_request = verify_get_request"
  by ((intro ext)?,
      unfold async_verify_get_request_def verify_get_request_def,
      rule refl)

lemma async_verify_get_response_eq: "async_verify_get_response = verify_get_response"
  by ((intro ext)?,
      unfold async_verify_get_response_def verify_get_response_def,
      rule refl)

lemma async_verify_get_eq: "async_verify_get = verify_get"
  by ((intro ext)?,
      unfold async_verify_get_def verify_get_def async_verify_get_request_eq
        async_verify_get_response_eq,
      rule refl)

lemma async_verify_list_request_eq: "async_verify_list_request = verify_list_request"
  by ((intro ext)?,
      unfold async_verify_list_request_def verify_list_request_def,
      rule refl)

lemma async_verify_list_item_eq: "async_verify_list_item = verify_list_item"
  by ((intro ext)?,
      unfold async_verify_list_item_def verify_list_item_def,
      rule refl)

lemma async_verify_list_response_eq: "async_verify_list_response = verify_list_response"
  by ((intro ext)?,
      unfold async_verify_list_response_def verify_list_response_def
        async_verify_list_item_eq,
      rule refl)

lemma async_verify_list_eq: "async_verify_list = verify_list"
  by ((intro ext)?,
      unfold async_verify_list_def verify_list_def async_verify_list_request_eq
        async_verify_list_response_eq,
      rule refl)

lemma async_media_upload_request_eq: "async_media_upload_request = media_upload_request"
  by ((intro ext)?,
      unfold async_media_upload_request_def media_upload_request_def,
      rule refl)

lemma async_media_upload_response_eq: "async_media_upload_response = media_upload_response"
  by ((intro ext)?,
      unfold async_media_upload_response_def media_upload_response_def,
      rule refl)

lemma async_media_upload_eq: "async_media_upload = media_upload"
  by ((intro ext)?,
      unfold async_media_upload_def media_upload_def async_media_upload_request_eq
        async_media_upload_response_eq,
      rule refl)

text \<open>
  Claim C5. For every facade operation the synchronous and the asynchronous variant are the
  same function of the arguments (and of the transport they are given): they construct the
  same request, with the same method, path, body and query parameters, and reshape the
  response mapping into the same typed result or raise the same error. What is left to
  differ is the suspension at the transport call, which is outside the model.
\<close>

theorem sync_and_async_agree:
  "transform_campaign = async_transform_campaign
   \<and> campaigns_create_request = async_campaigns_create_request
   \<and> campaigns_create = async_campaigns_create
   \<and> campaigns_list_request = async_campaigns_list_request
   \<and> campaigns_list_response = async_campaigns_list_response
   \<and> campaigns_list = async_campaigns_list
   \<and> campaigns_get_request = async_campaigns_get_request
   \<and> campaigns_get = async_campaigns_get
   \<and> campaigns_update_request = async_campaigns_update_request
   \<and> campaigns_update = async_campaigns_update
   \<and> campaigns_delete_request = async_campaigns_delete_request
   \<and> campaigns_delete = async_campaigns_delete
   \<and> campaigns_preview_request = async_campaigns_preview_request
   \<and> campaigns_preview_response = async_campaigns_preview_response
   \<and> campaigns_preview = async_campaigns_preview
   \<and> campaigns_send_request = async_campaigns_send_request
   \<and> campaigns_send = async_campaigns_send
   \<and> campaigns_schedule_request = async_campaigns_schedule_request
   \<and> campaigns_schedule = async_campaigns_schedule
   \<and> campaigns_cancel_request = async_campaigns_cancel_request
   \<and> campaigns_cancel = async_campaigns_cancel
   \<and> campaigns_clone_request = async_campaigns_clone_request
   \<and> campaigns_clone = async_campaigns_clone
   \<and> transform_list_member = async_transform_list_member
   \<and> transform_list = async_transform_list
   \<and> contact_lists_list_request = async_contact_lists_list_request
   \<and> contact_lists_list_response = async_contact_lists_list_response
   \<and> contact_lists_list = async_contact_lists_list
   \<and> contact_lists_get_request = async_contact_lists_get_request
   \<and> contact_lists_get = async_contact_lists_get
   \<and> contact_lists_create_request = async_contact_lists_create_request
   \<and> contact_lists_create = async_contact_lists_create
   \<and> contact_lists_update_request = async_contact_lists_update_request
   \<and> contact_lists_update = async_contact_lists_update
   \<and> contact_lists_delete_request = async_contact_lists_delete_request
   \<and> contact_lists_delete = async_contact_lists_delete
   \<and> contact_lists_add_contacts_request = async_contact_lists_add_contacts_request
   \<and> contact_lists_add_contacts_response = async_contact_lists_add_contacts_response
   \<and> contact_lists_add_contacts = async_contact_lists_add_contacts
   \<and> contact_lists_remove_contact_request = async_contact_lists_remove_contact_request
   \<and> contact_lists_remove_contact = async_contact_lists_remove_contact
   \<and> transform_contact_list_ref = async_transform_contact_list_ref
   \<and> transform_contact = async_transform_contact
   \<and> contacts_list_request = async_contacts_list_request
   \<and> contacts_list_response = async_contacts_list_response
   \<and> contacts_list = async_contacts_list
   \<and> contacts_get_request = async_contacts_get_request
   \<and> contacts_get = async_contacts_get
   \<and> contacts_create_request = async_contacts_create_request
   \<and> contacts_create = async_contacts_create
   \<and> contacts_update_request = async_contacts_update_request
   \<and> contacts_update = async_contacts_update
   \<and> contacts_delete_request = async_contacts_delete_request
   \<and> contacts_delete = async_contacts_delete
   \<and> contacts_import_contacts_request = async_contacts_import_contacts_request
   \<and> contacts_import_contacts_response = async_contacts_import_contacts_response
   \<and> contacts_import_contacts = async_contacts_import_contacts
   \<and> verify_send_request = async_verify_send_request
   \<and> verify_send_response = async_verify_send_response
   \<and> verify_send = async_verify_send
   \<and> verify_check_request = async_verify_check_request
   \<and> verify_check_response = async_verify_check_response
   \<and> verify_check = async_verify_check
   \<and> verify_get_request = async_verify_get_request
   \<and> verify_get_response = async_verify_get_response
   \<and> verify_get = async_verify_get
   \<and> verify_list_request = async_verify_list_request
   \<and> verify_list_item = async_verify_list_item
   \<and> verify_list_response = async_verify_list_response
   \<and> verify_list = async_verify_list
   \<and> media_upload_request = async_media_upload_request
   \<and> media_upload_response = async_media_upload_response
   \<and> media_upload = async_media_upload"
  by (simp add:
        async_transform_campaign_eq
        async_campaigns_create_request_eq
        async_campaigns_create_eq
        async_campaigns_list_request_eq
        async_campaigns_list_response_eq
        async_campaigns_list_eq
        async_campaigns_get_request_eq
        async_campaigns_get_eq
        async_campaigns_update_request_eq
        async_campaigns_update_eq
        async_campaigns_delete_request_eq
        async_campaigns_delete_eq
        async_campaigns_preview_request_eq
        async_campaigns_preview_response_eq
        async_campaigns_preview_eq
        async_campaigns_send_request_eq
        async_campaigns_send_eq
        async_campaigns_schedule_request_eq
        async_campaigns_schedule_eq
        async_campaigns_cancel_request_eq
        async_campaigns_cancel_eq
        async_campaigns_clone_request_eq
        async_campaigns_clone_eq
        async_transform_list_member_eq
        async_transform_list_eq
        async_contact_lists_list_request_eq
        async_contact_lists_list_response_eq
        async_contact_lists_list_eq
        async_contact_lists_get_request_eq
        async_contact_lists_get_eq
        async_contact_lists_create_request_eq
        async_contact_lists_create_eq
        async_contact_lists_update_request_eq
        async_contact_lists_update_eq
        async_contact_lists_delete_request_eq
        async_contact_lists_delete_eq
        async_contact_lists_add_contacts_request_eq
        async_contact_lists_add_contacts_response_eq
        async_contact_lists_add_contacts_eq
        async_contact_lists_remove_contact_request_eq
        async_contact_lists_remove_contact_eq
        async_transform_contact_list_ref_eq
        async_transform_contact_eq
        async_contacts_list_request_eq
        async_contacts_list_response_eq
        async_contacts_list_eq
        async_contacts_get_request_eq
        async_contacts_get_eq
        async_contacts_create_request_eq
        async_contacts_create_eq
        async_contacts_update_request_eq
        async_contacts_update_eq
        async_contacts_delete_request_eq
        async_contacts_delete_eq
        async_contacts_import_contacts_request_eq
        async_contacts_import_contacts_response_eq
        async_contacts_import_contacts_eq
        async_verify_send_request_eq
        async_verify_send_response_eq
        async_verify_send_eq
        async_verify_check_request_eq
        async_verify_check_response_eq
        async_verify_check_eq
        async_verify_get_request_eq
        async_verify_get_response_eq
        async_verify_get_eq
        async_verify_list_request_eq
        async_verify_list_item_eq
        async_verify_list_response_eq
        async_verify_list_eq
        async_media_upload_request_eq
        async_media_upload_response_eq
        async_media_upload_eq)

section \<open>Reading the fields back\<close>

lemma py_getitem_obj: "(py_getitem (JObject kvs) k = Inr v) = (map_of kvs k = Some v)"
  by (simp split: option.splits)

lemma campaign_roundtrip:
  "transform_campaign (JObject kvs) = Inr c \<Longrightarrow> map_of kvs k = Some v \<Longrightarrow>
   map_of (Campaign_fields c) k = Some w \<Longrightarrow> w = v"
  by (clarsimp simp: transform_campaign_def Campaign_fields_def err_bind_eq_Inr
        py_getitem_obj py_get_obj simp del: py_getitem.simps split: if_splits)

lemma preview_roundtrip:
  "campaigns_preview_response (JObject kvs) = Inr c \<Longrightarrow> map_of kvs k = Some v \<Longrightarrow>
   map_of (CampaignPreview_fields c) k = Some w \<Longrightarrow> w = v"
  by (clarsimp simp: campaigns_preview_response_def CampaignPreview_fields_def err_bind_eq_Inr
        py_getitem_obj py_get_obj simp del: py_getitem.simps split: if_splits)

lemma contact_roundtrip:
  "transform_contact (JObject kvs) = Inr c \<Longrightarrow> map_of kvs k = Some v \<Longrightarrow>
   map_of (Contact_fields c) k = Some w \<Longrightarrow> k \<noteq> ''lists'' \<Longrightarrow> w = v"
  by (clarsimp simp: transform_contact_def Contact_fields_def err_bind_eq_Inr
        py_getitem_obj py_get_obj simp del: py_getitem.simps split: if_splits)

lemma contact_list_roundtrip:
  "transform_list (JObject kvs) = Inr c \<Longrightarrow> map_of kvs k = Some v \<Longrightarrow>
   map_of (ContactList_fields c) k = Some w \<Longrightarrow> k \<noteq> ''contacts'' \<Longrightarrow> w = v"
  by (clarsimp simp: transform_list_def ContactList_fields_def err_bind_eq_Inr
        py_getitem_obj py_get_obj simp del: py_getitem.simps split: if_splits)

lemma import_roundtrip:
  "contacts_import_contacts_response (JObject kvs) = Inr c \<Longrightarrow> map_of kvs k = Some v \<Longrightarrow>
   map_of (ImportContactsResponse_fields c) k = Some w \<Longrightarrow> k \<noteq> ''skipped_duplicates'' \<Longrightarrow> k \<noteq> ''total_errors'' \<Longrightarrow> w = v"
  by (clarsimp simp: contacts_import_contacts_response_def ImportContactsResponse_fields_def err_bind_eq_Inr
        py_getitem_obj py_get_obj simp del: py_getitem.simps split: if_splits)

lemma send_roundtrip:
  "verify_send_response (JObject kvs) = Inr c \<Longrightarrow> map_of kvs k = Some v \<Longrightarrow>
   map_of (SendVerificationResponse_fields c) k = Some w \<Longrightarrow> w = v"
  by (clarsimp simp: verify_send_response_def SendVerificationResponse_fields_def err_bind_eq_Inr
        py_getitem_obj py_get_obj simp del: py_getitem.simps split: if_splits)

lemma check_roundtrip:
  "verify_check_response (JObject kvs) = Inr c \<Longrightarrow> map_of kvs k = Some v \<Longrightarrow>
   map_of (CheckVerificationResponse_fields c) k = Some w \<Longrightarrow> w = v"
  by (clarsimp simp: verify_check_response_def CheckVerificationResponse_fields_def err_bind_eq_Inr
        py_getitem_obj py_get_obj simp del: py_getitem.simps split: if_splits)

lemma verification_roundtrip:
  "verify_get_response (JObject kvs) = Inr c \<Longrightarrow> map_of kvs k = Some v \<Longrightarrow>
   map_of (Verification_fields c) k = Some w \<Longrightarrow> w = v"
  by (clarsimp simp: verify_get_response_def Verification_fields_def err_bind_eq_Inr
        py_getitem_obj py_get_obj simp del: py_getitem.simps split: if_splits)

lemma verification_item_roundtrip:
  "verify_list_item (JObject kvs) = Inr c \<Longrightarrow> map_of kvs k = Some v \<Longrightarrow>
   map_of (Verification_fields c) k = Some w \<Longrightarrow> w = v"
  by (clarsimp simp: verify_list_item_def Verification_fields_def err_bind_eq_Inr
        py_getitem_obj py_get_obj simp del: py_getitem.simps split: if_splits)

text \<open>
  Claim C6, as the code has it. The round trip fails for the contact transform: a response
  whose \<open>lists\<close> key is bound to an empty array is accepted, and the \<open>lists\<close> field of the
  typed contact reads \<open>None\<close>, not the empty array of the mapping.
\<close>

theorem contact_lists_field_differs_from_source:
  "\<exists>c. transform_contact
          (JObject [(''id'', JString ''ct_1''), (''phone_number'', JString ''+15551234567''),
                    (''created_at'', JString ''2024-01-01''), (''lists'', JArray [])]) = Inr c
       \<and> map_of [(''id'', JString ''ct_1''), (''phone_number'', JString ''+15551234567''),
                  (''created_at'', JString ''2024-01-01''), (''lists'', JArray [])] ''lists'' =
           Some (JArray [])
       \<and> map_of (Contact_fields c) ''lists'' = Some JNull
       \<and> JNull \<noteq> JArray []"
  by (simp add: transform_contact_def py_get_def Contact_fields_def)

text \<open>
  Claim C6, amended. For every mapping accepted by the campaign, campaign-preview,
  send-verification, check-verification and verification (\<open>get\<close> and the items of \<open>list\<close>)
  constructors, every field name present in both the mapping and the typed object reads
  back the mapping's value. For the contact and contact-list transforms the same holds for
  every field but \<open>lists\<close> and \<open>contacts\<close>, which are rebuilt from the response; for the
  import result it holds for every field but \<open>skipped_duplicates\<close> and \<open>total_errors\<close>,
  which are read from the keys \<open>skippedDuplicates\<close> and \<open>totalErrors\<close>.
\<close>

theorem typed_fields_read_back_source_values:
  "(transform_campaign (JObject kvs) = Inr c_campaign \<and> map_of kvs k = Some v
      \<and> map_of (Campaign_fields c_campaign) k = Some w \<longrightarrow> w = v)
   \<and> (campaigns_preview_response (JObject kvs) = Inr c_preview \<and> map_of kvs k = Some v
      \<and> map_of (CampaignPreview_fields c_preview) k = Some w \<longrightarrow> w = v)
   \<and> (transform_contact (JObject kvs) = Inr c_contact \<and> map_of kvs k = Some v
      \<and> map_of (Contact_fields c_contact) k = Some w
      \<and> k \<noteq> ''lists'' \<longrightarrow> w = v)
   \<and> (transform_list (JObject kvs) = Inr c_list \<and> map_of kvs k = Some v
      \<and> map_of (ContactList_fields c_list) k = Some w
      \<and> k \<noteq> ''contacts'' \<longrightarrow> w = v)
   \<and> (contacts_import_contacts_response (JObject kvs) = Inr c_import \<and> map_of kvs k = Some v
      \<and> map_of (ImportContactsResponse_fields c_import) k = Some w
      \<and> k \<noteq> ''skipped_duplicates''
      \<and> k \<noteq> ''total_errors'' \<longrightarrow> w = v)
   \<and> (verify_send_response (JObject kvs) = Inr c_send \<and> map_of kvs k = Some v
      \<and> map_of (SendVerificationResponse_fields c_send) k = Some w \<longrightarrow> w = v)
   \<and> (verify_check_response (JObject kvs) = Inr c_check \<and> map_of kvs k = Some v
      \<and> map_of (CheckVerificationResponse_fields c_check) k = Some w \<longrightarrow> w = v)
   \<and> (verify_get_response (JObject kvs) = Inr c_get \<and> map_of kvs k = Some v
      \<and> map_of (Verification_fields c_get) k = Some w \<longrightarrow> w = v)
   \<and> (verify_list_item (JObject kvs) = Inr c_item \<and> map_of kvs k = Some v
      \<and> map_of (Verification_fields c_item) k = Some w \<longrightarrow> w = v)"
  by (intro conjI impI; elim conjE;
      blast intro: campaign_roundtrip preview_roundtrip contact_roundtrip contact_list_roundtrip import_roundtrip
        send_roundtrip check_roundtrip verification_roundtrip verification_item_roundtrip)

theorem typed_fields_read_back_source_values_witness:
  "(\<exists>c. transform_campaign
          (JObject [(''id'', JString ''cmp_1''), (''name'', JString ''Welcome''),
                    (''text'', JString ''Hello''),
                    (''status'', JString ''draft''),
                    (''recipient_count'', JInt 5),
                    (''created_at'', JString ''2024-01-01''),
                    (''updated_at'', JString ''2024-01-02'')]) = Inr c
        \<and> map_of (Campaign_fields c) ''recipient_count'' = Some (JInt 5))
   \<and> (\<exists>c. campaigns_preview_response
          (JObject [(''id'', JString ''cmp_1''), (''recipient_count'', JInt 5),
                    (''estimated_segments'', JInt 1),
                    (''estimated_credits'', JInt 5),
                    (''current_balance'', JInt 90),
                    (''has_enough_credits'', JBool True)]) = Inr c
        \<and> map_of (CampaignPreview_fields c) ''estimated_credits'' = Some (JInt 5))
   \<and> (\<exists>c. transform_contact
          (JObject [(''id'', JString ''ct_1''),
                    (''phone_number'', JString ''+15551234567''),
                    (''name'', JString ''John''),
                    (''created_at'', JString ''2024-01-01'')]) = Inr c
        \<and> map_of (Contact_fields c) ''name'' = Some (JString ''John''))
   \<and> (\<exists>c. transform_list
          (JObject [(''id'', JString ''lst_1''), (''name'', JString ''News''),
                    (''contact_count'', JInt 3),
                    (''created_at'', JString ''2024-01-01'')]) = Inr c
        \<and> map_of (ContactList_fields c) ''contact_count'' = Some (JInt 3))
   \<and> (\<exists>c. contacts_import_contacts_response
          (JObject [(''imported'', JInt 2), (''skippedDuplicates'', JInt 1)]) = Inr c
        \<and> map_of (ImportContactsResponse_fields c) ''imported'' = Some (JInt 2))
   \<and> (\<exists>c. verify_send_response
          (JObject [(''id'', JString ''ver_1''),
                    (''status'', JString ''pending''),
                    (''phone'', JString ''+15551234567''),
                    (''expires_at'', JString ''2024-01-01''),
                    (''sandbox'', JBool False)]) = Inr c
        \<and> map_of (SendVerificationResponse_fields c) ''phone'' = Some (JString ''+15551234567''))
   \<and> (\<exists>c. verify_check_response
          (JObject [(''id'', JString ''ver_1''),
                    (''status'', JString ''verified''),
                    (''phone'', JString ''+15551234567''),
                    (''verified_at'', JString ''2024-01-01'')]) = Inr c
        \<and> map_of (CheckVerificationResponse_fields c) ''verified_at'' = Some (JString ''2024-01-01''))
   \<and> (\<exists>c. verify_get_response
          (JObject [(''id'', JString ''ver_1''),
                    (''status'', JString ''pending''),
                    (''phone'', JString ''+15551234567''),
                    (''delivery_status'', JString ''sent''),
                    (''attempts'', JInt 1), (''max_attempts'', JInt 3),
                    (''expires_at'', JString ''2024-01-01''),
                    (''created_at'', JString ''2024-01-01''),
                    (''sandbox'', JBool False)]) = Inr c
        \<and> map_of (Verification_fields c) ''attempts'' = Some (JInt 1))
   \<and> (\<exists>c. verify_list_item
          (JObject [(''id'', JString ''ver_1''),
                    (''status'', JString ''pending''),
                    (''phone'', JString ''+15551234567''),
                    (''delivery_status'', JString ''sent''),
                    (''attempts'', JInt 1), (''max_attempts'', JInt 3),
                    (''expires_at'', JString ''2024-01-01''),
                    (''created_at'', JString ''2024-01-01''),
                    (''sandbox'', JBool False)]) = Inr c
        \<and> map_of (Verification_fields c) ''status'' = Some (JString ''pending''))"
proof -
  note T = typed_fields_read_back_source_values
  let ?K1 = "[(''id'', JString ''cmp_1''), (''name'', JString ''Welcome''),
              (''text'', JString ''Hello''), (''status'', JString ''draft''),
              (''recipient_count'', JInt 5),
              (''created_at'', JString ''2024-01-01''),
              (''updated_at'', JString ''2024-01-02'')]"
  have "\<exists>c. transform_campaign (JObject ?K1) = Inr c"
    by (simp add: transform_campaign_def py_get_def)
  then obtain x1 where x1: "transform_campaign (JObject ?K1) = Inr x1" ..
  have f1: "map_of (Campaign_fields x1) ''recipient_count'' = Some (Campaign_recipient_count x1)"
    by (simp add: Campaign_fields_def)
  have k1: "map_of ?K1 ''recipient_count'' = Some (JInt 5)" by simp
  from T [where kvs = ?K1 and k = "''recipient_count''" and v = "JInt 5" and w = "Campaign_recipient_count x1"
            and c_campaign = x1] x1 f1 k1
  have p1: "\<exists>c. transform_campaign (JObject ?K1) = Inr c
      \<and> map_of (Campaign_fields c) ''recipient_count'' = Some (JInt 5)"
    by auto
  let ?K2 = "[(''id'', JString ''cmp_1''), (''recipient_count'', JInt 5),
              (''estimated_segments'', JInt 1), (''estimated_credits'', JInt 5),
              (''current_balance'', JInt 90),
              (''has_enough_credits'', JBool True)]"
  have "\<exists>c. campaigns_preview_response (JObject ?K2) = Inr c"
    by (simp add: campaigns_preview_response_def py_get_def)
  then obtain x2 where x2: "campaigns_preview_response (JObject ?K2) = Inr x2" ..
  have f2: "map_of (CampaignPreview_fields x2) ''estimated_credits'' = Some (CampaignPreview_estimated_credits x2)"
    by (simp add: CampaignPreview_fields_def)
  have k2: "map_of ?K2 ''estimated_credits'' = Some (JInt 5)" by simp
  from T [where kvs = ?K2 and k = "''estimated_credits''" and v = "JInt 5" and w = "CampaignPreview_estimated_credits x2"
            and c_preview = x2] x2 f2 k2
  have p2: "\<exists>c. campaigns_preview_response (JObject ?K2) = Inr c
      \<and> map_of (CampaignPreview_fields c) ''estimated_credits'' = Some (JInt 5)"
    by auto
  let ?K3 = "[(''id'', JString ''ct_1''),
              (''phone_number'', JString ''+15551234567''),
              (''name'', JString ''John''),
              (''created_at'', JString ''2024-01-01'')]"
  have "\<exists>c. transform_contact (JObject ?K3) = Inr c"
    by (simp add: transform_contact_def py_get_def)
  then obtain x3 where x3: "transform_contact (JObject ?K3) = Inr x3" ..
  have f3: "map_of (Contact_fields x3) ''name'' = Some (Contact_name x3)"
    by (simp add: Contact_fields_def)
  have k3: "map_of ?K3 ''name'' = Some (JString ''John'')" by simp
  have n3: "''name'' \<noteq> ''lists''" by simp
  from T [where kvs = ?K3 and k = "''name''" and v = "JString ''John''" and w = "Contact_name x3"
            and c_contact = x3] x3 f3 k3 n3
  have p3: "\<exists>c. transform_contact (JObject ?K3) = Inr c
      \<and> map_of (Contact_fields c) ''name'' = Some (JString ''John'')"
    by auto
  let ?K4 = "[(''id'', JString ''lst_1''), (''name'', JString ''News''),
              (''contact_count'', JInt 3),
              (''created_at'', JString ''2024-01-01'')]"
  have "\<exists>c. transform_list (JObject ?K4) = Inr c"
    by (simp add: transform_list_def py_get_def)
  then obtain x4 where x4: "transform_list (JObject ?K4) = Inr x4" ..
  have f4: "map_of (ContactList_fields x4) ''contact_count'' = Some (ContactList_contact_count x4)"
    by (simp add: ContactList_fields_def)
  have k4: "map_of ?K4 ''contact_count'' = Some (JInt 3)" by simp
  have n4: "''contact_count'' \<noteq> ''contacts''" by simp
  from T [where kvs = ?K4 and k = "''contact_count''" and v = "JInt 3" and w = "ContactList_contact_count x4"
            and c_list = x4] x4 f4 k4 n4
  have p4: "\<exists>c. transform_list (JObject ?K4) = Inr c
      \<and> map_of (ContactList_fields c) ''contact_count'' = Some (JInt 3)"
    by auto
  let ?K5 = "[(''imported'', JInt 2), (''skippedDuplicates'', JInt 1)]"
  have "\<exists>c. contacts_import_contacts_response (JObject ?K5) = Inr c"
    by (simp add: contacts_import_contacts_response_def py_get_def)
  then obtain x5 where x5: "contacts_import_contacts_response (JObject ?K5) = Inr x5" ..
  have f5: "map_of (ImportContactsResponse_fields x5) ''imported'' = Some (ImportContactsResponse_imported x5)"
    by (simp add: ImportContactsResponse_fields_def)
  have k5: "map_of ?K5 ''imported'' = Some (JInt 2)" by simp
  have n5: "''imported'' \<noteq> ''skipped_duplicates'' \<and> ''imported'' \<noteq> ''total_errors''" by simp
  from T [where kvs = ?K5 and k = "''imported''" and v = "JInt 2" and w = "ImportContactsResponse_imported x5"
            and c_import = x5] x5 f5 k5 n5
  have p5: "\<exists>c. contacts_import_contacts_response (JObject ?K5) = Inr c
      \<and> map_of (ImportContactsResponse_fields c) ''imported'' = Some (JInt 2)"
    by auto
  let ?K6 = "[(''id'', JString ''ver_1''), (''status'', JString ''pending''),
              (''phone'', JString ''+15551234567''),
              (''expires_at'', JString ''2024-01-01''),
              (''sandbox'', JBool False)]"
  have "\<exists>c. verify_send_response (JObject ?K6) = Inr c"
    by (simp add: verify_send_response_def py_get_def)
  then obtain x6 where x6: "verify_send_response (JObject ?K6) = Inr x6" ..
  have f6: "map_of (SendVerificationResponse_fields x6) ''phone'' = Some (SendVerificationResponse_phone x6)"
    by (simp add: SendVerificationResponse_fields_def)
  have k6: "map_of ?K6 ''phone'' = Some (JString ''+15551234567'')" by simp
  from T [where kvs = ?K6 and k = "''phone''" and v = "JString ''+15551234567''" and w = "SendVerificationResponse_phone x6"
            and c_send = x6] x6 f6 k6
  have p6: "\<exists>c. verify_send_response (JObject ?K6) = Inr c
      \<and> map_of (SendVerificationResponse_fields c) ''phone'' = Some (JString ''+15551234567'')"
    by auto
  let ?K7 = "[(''id'', JString ''ver_1''), (''status'', JString ''verified''),
              (''phone'', JString ''+15551234567''),
              (''verified_at'', JString ''2024-01-01'')]"
  have "\<exists>c. verify_check_response (JObject ?K7) = Inr c"
    by (simp add: verify_check_response_def py_get_def)
  then obtain x7 where x7: "verify_check_response (JObject ?K7) = Inr x7" ..
  have f7: "map_of (CheckVerificationResponse_fields x7) ''verified_at'' = Some (CheckVerificationResponse_verified_at x7)"
    by (simp add: CheckVerificationResponse_fields_def)
  have k7: "map_of ?K7 ''verified_at'' = Some (JString ''2024-01-01'')" by simp
  from T [where kvs = ?K7 and k = "''verified_at''" and v = "JString ''2024-01-01''" and w = "CheckVerificationResponse_verified_at x7"
            and c_check = x7] x7 f7 k7
  have p7: "\<exists>c. verify_check_response (JObject ?K7) = Inr c
      \<and> map_of (CheckVerificationResponse_fields c) ''verified_at'' = Some (JString ''2024-01-01'')"
    by auto
  let ?K8 = "[(''id'', JString ''ver_1''), (''status'', JString ''pending''),
              (''phone'', JString ''+15551234567''),
              (''delivery_status'', JString ''sent''), (''attempts'', JInt 1),
              (''max_attempts'', JInt 3),
              (''expires_at'', JString ''2024-01-01''),
              (''created_at'', JString ''2024-01-01''),
              (''sandbox'', JBool False)]"
  have "\<exists>c. verify_get_response (JObject ?K8) = Inr c"
    by (simp add: verify_get_response_def py_get_def)
  then obtain x8 where x8: "verify_get_response (JObject ?K8) = Inr x8" ..
  have f8: "map_of (Verification_fields x8) ''attempts'' = Some (Verification_attempts x8)"
    by (simp add: Verification_fields_def)
  have k8: "map_of ?K8 ''attempts'' = Some (JInt 1)" by simp
  from T [where kvs = ?K8 and k = "''attempts''" and v = "JInt 1" and w = "Verification_attempts x8"
            and c_get = x8] x8 f8 k8
  have p8: "\<exists>c. verify_get_response (JObject ?K8) = Inr c
      \<and> map_of (Verification_fields c) ''attempts'' = Some (JInt 1)"
    by auto
  let ?K9 = "[(''id'', JString ''ver_1''), (''status'', JString ''pending''),
              (''phone'', JString ''+15551234567''),
              (''delivery_status'', JString ''sent''), (''attempts'', JInt 1),
              (''max_attempts'', JInt 3),
              (''expires_at'', JString ''2024-01-01''),
              (''created_at'', JString ''2024-01-01''),
              (''sandbox'', JBool False)]"
  have "\<exists>c. verify_list_item (JObject ?K9) = Inr c"
    by (simp add: verify_list_item_def py_get_def)
  then obtain x9 where x9: "verify_list_item (JObject ?K9) = Inr x9" ..
  have f9: "map_of (Verification_fields x9) ''status'' = Some (Verification_status x9)"
    by (simp add: Verification_fields_def)
  have k9: "map_of ?K9 ''status'' = Some (JString ''pending'')" by simp
  from T [where kvs = ?K9 and k = "''status''" and v = "JString ''pending''" and w = "Verification_status x9"
            and c_item = x9] x9 f9 k9
  have p9: "\<exists>c. verify_list_item (JObject ?K9) = Inr c
      \<and> map_of (Verification_fields c) ''status'' = Some (JString ''pending'')"
    by auto
  from p1 p2 p3 p4 p5 p6 p7 p8 p9 show ?thesis by blast
qed

end
